theory Spec2Isabelle
  imports Complex_Main
begin

section \<open>Conventions\<close>

text \<open>
  The repository is Python over numpy. Floating-point numbers are modelled as \<^typ>\<open>real\<close>,
  Python integers as \<^typ>\<open>int\<close> or \<^typ>\<open>nat\<close>, a result dictionary read with
  \<^verbatim>\<open>results.get(key, default)\<close> as a record of optional fields, and the attributes
  that \<^verbatim>\<open>LaserSpeckleUI\<close> mutates between cycles as an explicit state record that every
  function takes and returns. An exception is a value of \<open>py_error\<close>.
\<close>

datatype py_error = ZeroDivisionError | ValueError | TypeError | DataError

text \<open>
  \<open>ZeroDivisionError\<close>, \<open>ValueError\<close> and \<open>TypeError\<close> are the exceptions that the modelled
  code and the numpy calls it makes can raise.
  \<open>DataError\<close> is the error class that the specification names; no path of the source
  raises it.
\<close>

section \<open>The decision engine: \<^verbatim>\<open>LaserSpeckleUI.calculate_current_adjustment\<close>\<close>

subsection \<open>Reports and controller state\<close>

record report =
  highest_bin_percentage :: "real option"
  weighted_saturation_percentage :: "real option"
  high_intensity_sum :: "real option"
  weighted_mean :: "real option"
  is_saturated :: "bool option"
  saturated_pixels :: "real option"
  saturated_percentage :: "real option"
  total_pixels :: "real option"
  max_value :: "real option"
  mean_contrast :: "real option"
  global_contrast :: "real option"
  median_contrast :: "real option"
  weighted_mean_contrast :: "real option"

definition empty_report :: report where
  "empty_report =
     \<lparr>highest_bin_percentage = None, weighted_saturation_percentage = None,
      high_intensity_sum = None, weighted_mean = None, is_saturated = None,
      saturated_pixels = None, saturated_percentage = None, total_pixels = None,
      max_value = None, mean_contrast = None, global_contrast = None,
      median_contrast = None, weighted_mean_contrast = None\<rparr>"

definition get :: "'a option \<Rightarrow> 'a \<Rightarrow> 'a" where
  \<comment> \<open>\<^verbatim>\<open>results.get(key, default)\<close>\<close>
  "get v d = (case v of None \<Rightarrow> d | Some x \<Rightarrow> x)"

record engine =
  current_value :: int
  prev_high_sum :: "real option"
  stable_count :: nat
  last_mean_values :: "real list"
  last_adjustment_values :: "real list"

definition fresh_engine :: engine where
  \<comment> \<open>the attributes as \<^verbatim>\<open>__init__\<close> sets them\<close>
  "fresh_engine =
     \<lparr>current_value = 20, prev_high_sum = None, stable_count = 0,
      last_mean_values = [], last_adjustment_values = []\<rparr>"

definition push5 :: "real list \<Rightarrow> real \<Rightarrow> real list" where
  \<comment> \<open>\<^verbatim>\<open>xs.append(v); if len(xs) > 5: xs.pop(0)\<close>\<close>
  "push5 xs v = (let ys = xs @ [v] in if length ys > 5 then tl ys else ys)"

definition from_end :: "real list \<Rightarrow> nat \<Rightarrow> real" where
  \<comment> \<open>\<^verbatim>\<open>xs[-k]\<close>; every use in the source is guarded by \<^verbatim>\<open>len(xs) >= k\<close>\<close>
  "from_end xs k = xs ! (length xs - k)"

abbreviation optimal_mean_min :: real where "optimal_mean_min \<equiv> 40"
abbreviation optimal_mean_max :: real where "optimal_mean_max \<equiv> 60"
abbreviation optimal_sat_min :: real where "optimal_sat_min \<equiv> 35"
abbreviation optimal_sat_max :: real where "optimal_sat_max \<equiv> 45"
abbreviation min_adjustment_threshold :: real where "min_adjustment_threshold \<equiv> 0.3"

subsection \<open>The histogram branch\<close>

definition update_stability :: "engine \<Rightarrow> real \<Rightarrow> engine" where
  \<comment> \<open>lines 1297-1311: the stable-reading counter\<close>
  "update_stability st current_high_sum =
     (let st1 = (case prev_high_sum st of
                   None \<Rightarrow> st
                 | Some p \<Rightarrow>
                     if \<bar>current_high_sum - p\<bar> < 0.1
                     then st\<lparr>stable_count := stable_count st + 1\<rparr>
                     else st\<lparr>stable_count := 0\<rparr>)
      in st1\<lparr>prev_high_sum := Some current_high_sum\<rparr>)"

definition case0_dark :: "engine \<Rightarrow> real \<Rightarrow> real" where
  \<comment> \<open>CASE 0, lines 1316-1342\<close>
  "case0_dark st norm_mean =
     (let adjustment = (if norm_mean < 1.0 then 3.0 else if norm_mean < 2.0 then 2.0 else 1.0);
          adjustment = (if current_value st = 19 then 1.0 else adjustment)
      in if current_value st \<le> 20 \<and> current_value st \<ge> 18 \<and>
            length (last_mean_values st) \<ge> 2 \<and>
            list_ex (\<lambda>val. val > 30) (butlast (last_mean_values st))
         then 0.3 else adjustment)"

definition case2_oversaturated :: "engine \<Rightarrow> real \<Rightarrow> real" where
  \<comment> \<open>CASE 2, lines 1354-1383\<close>
  "case2_oversaturated st high_sum =
     (let adjustment = (if high_sum > 60 then - 0.5 else if high_sum > 40 then - 0.3
                        else if high_sum > 20 then - 0.2 else - 0.1);
          adjustment = (if current_value st = 21 then - 1.0 else adjustment)
      in if current_value st \<le> 20 \<and> current_value st \<ge> 19 \<and>
            length (last_mean_values st) \<ge> 2 \<and>
            list_ex (\<lambda>val. val < 10) (butlast (last_mean_values st))
         then - 0.1 else adjustment)"

definition case9_proportional :: "real \<Rightarrow> real \<Rightarrow> real" where
  \<comment> \<open>CASE 9 (fallback), lines 1460-1521\<close>
  "case9_proportional norm_mean high_sum =
     (let mean_factor =
            (if norm_mean < optimal_mean_min then
               (let mean_deficit = optimal_mean_min - norm_mean
                in min 2.0 (if mean_deficit < 3 then mean_deficit * 0.1
                            else if mean_deficit < 8 then 0.3 + (mean_deficit - 3) * 0.15
                            else 1.05 + (mean_deficit - 8) * 0.25))
             else if norm_mean > optimal_mean_max then
               (let mean_excess = norm_mean - optimal_mean_max
                in max (- 2.0) (if mean_excess < 3 then - mean_excess * 0.1
                               else if mean_excess < 8 then - 0.3 - (mean_excess - 3) * 0.15
                               else - 1.05 - (mean_excess - 8) * 0.25))
             else 0);
          sat_factor =
            (if high_sum < optimal_sat_min then
               (let sat_deficit = optimal_sat_min - high_sum
                in min 1.5 (if sat_deficit < 0.1 then sat_deficit * 0.8
                            else if sat_deficit < 0.3 then 0.08 + (sat_deficit - 0.1) * 2.0
                            else 0.48 + (sat_deficit - 0.3) * 1.0))
             else if high_sum > optimal_sat_max then
               (let sat_excess = high_sum - optimal_sat_max
                in max (- 1.5) (if sat_excess < 0.1 then - sat_excess * 0.8
                               else if sat_excess < 0.3 then - 0.08 - (sat_excess - 0.1) * 2.0
                               else - 0.48 - (sat_excess - 0.3) * 1.0))
             else 0);
          combined_factor = (mean_factor * 0.6) + (sat_factor * 0.4)
      in if \<bar>combined_factor\<bar> < 0.1 then combined_factor * 0.5
         else if \<bar>combined_factor\<bar> < 0.5 then combined_factor * 0.6
         else combined_factor * 0.8)"

definition histogram_ladder :: "engine \<Rightarrow> real \<Rightarrow> real \<Rightarrow> real \<Rightarrow> real \<Rightarrow> real" where
  \<comment> \<open>the if/elif chain of lines 1316-1523, in the source's order\<close>
  "histogram_ladder st norm_mean high_sum highest_bin weighted_sat =
     (if norm_mean < 2.0 \<or> high_sum < 0.01 then case0_dark st norm_mean
      else if norm_mean < optimal_mean_min * 0.7 \<or> high_sum < optimal_sat_min * 0.3 then 1.5
      else if highest_bin > 5.0 \<or> weighted_sat > 2.0 \<or> high_sum > optimal_sat_max * 3
        then case2_oversaturated st high_sum
      else if highest_bin > 2.0 \<or> weighted_sat > 1.0
        then (if highest_bin > 3.5 \<or> weighted_sat > 1.5 then - 0.4 else - 0.2)
      else if norm_mean < optimal_mean_min \<and> high_sum < optimal_sat_max
        then (let mean_deficit = optimal_mean_min - norm_mean
              in if mean_deficit > 15 then 1.5 else if mean_deficit > 7 then 1.0
                 else if mean_deficit > 3 then 0.7 else 0.3)
      else if norm_mean > optimal_mean_max \<and> high_sum > optimal_sat_min
        then (let mean_excess = norm_mean - optimal_mean_max
              in if mean_excess > 15 then - 0.5 else - 0.2)
      else if optimal_mean_min \<le> norm_mean \<and> norm_mean \<le> optimal_mean_max \<and>
              high_sum < optimal_sat_min
        then (let sat_deficit = optimal_sat_min - high_sum
              in if sat_deficit > 10 then 1.0 else 0.5)
      else if optimal_mean_min \<le> norm_mean \<and> norm_mean \<le> optimal_mean_max \<and>
              high_sum > optimal_sat_max
        then (let sat_excess = high_sum - optimal_sat_max
              in if sat_excess > 10 then - 0.5 else - 0.2)
      else if optimal_mean_min \<le> norm_mean \<and> norm_mean \<le> optimal_mean_max \<and>
              optimal_sat_min \<le> high_sum \<and> high_sum \<le> optimal_sat_max
        then 0.0
      else case9_proportional norm_mean high_sum)"

definition stability_damping :: "engine \<Rightarrow> real \<Rightarrow> real" where
  \<comment> \<open>lines 1525-1546\<close>
  "stability_damping st adjustment =
     (if stable_count st \<ge> 2 \<and> adjustment \<noteq> 0 then
        (let damping = (if adjustment > 0
                        then min 0.6 (real (stable_count st) * 0.15)
                        else min 0.8 (real (stable_count st) * 0.2));
             damping = (if 19 \<le> current_value st \<and> current_value st \<le> 21
                        then (if stable_count st \<ge> 5 then 0.9 else min 0.8 (damping + 0.2))
                        else damping)
         in adjustment * (1 - damping))
      else adjustment)"

definition histogram_hysteresis :: "engine \<Rightarrow> real \<Rightarrow> real" where
  \<comment> \<open>lines 1548-1565\<close>
  "histogram_hysteresis st adjustment =
     (if adjustment < 0 \<and> \<bar>adjustment\<bar> < 0.07 then 0.0
      else if adjustment > 0 \<and> \<bar>adjustment\<bar> < 0.02 then 0.0
      else if 19 \<le> current_value st \<and> current_value st \<le> 21
        then (if adjustment < 0 \<and> \<bar>adjustment\<bar> < 0.15 then 0.0
              else if adjustment > 0 \<and> \<bar>adjustment\<bar> < 0.1 then 0.0
              else adjustment)
      else adjustment)"

definition histogram_branch :: "engine \<Rightarrow> report \<Rightarrow> real \<times> real \<times> engine" where
  \<comment> \<open>lines 1265-1565; gives the adjustment, \<^verbatim>\<open>norm_mean\<close> and the state\<close>
  "histogram_branch st results =
     (let highest_bin = get (highest_bin_percentage results) 0;
          weighted_sat = get (weighted_saturation_percentage results) 0;
          high_sum = get (high_intensity_sum results) 0;
          weighted_mean = get (weighted_mean results) 0;
          norm_mean = (weighted_mean / 255) * 100;
          st1 = update_stability st high_sum;
          adjustment = histogram_ladder st1 norm_mean high_sum highest_bin weighted_sat;
          adjustment = stability_damping st1 adjustment;
          adjustment = histogram_hysteresis st1 adjustment
      in (adjustment, norm_mean, st1))"

subsection \<open>The pixel-count and contrast branches\<close>

definition pixel_count_branch :: "engine \<Rightarrow> report \<Rightarrow> (py_error + real) \<times> real \<times> engine" where
  \<comment> \<open>lines 1567-1653. The entries are read as Python numbers: the division by
      \<^verbatim>\<open>total_pixels\<close> raises when that entry is 0, and the history has been extended by
      then.\<close>
  "pixel_count_branch st results =
     (if is_saturated results = Some True then
        (let sat_percent = get (weighted_saturation_percentage results) 0;
             norm_mean = 70;
             st1 = st\<lparr>last_mean_values := push5 (last_mean_values st) norm_mean\<rparr>;
             adjustment = (if sat_percent > 2.0 then - 5.0
                           else if sat_percent > 1.0 then - 2.0
                           else if sat_percent > 0.5 then - 1.0
                           else - 0.5)
         in (Inr adjustment, norm_mean, st1))
      else if saturated_pixels results \<noteq> None then
        (let sat_pixels = get (saturated_pixels results) 0;
             total_pixels = get (total_pixels results) 1;
             max_value = get (max_value results) 255;
             norm_mean = (max_value / 255) * 100;
             st1 = st\<lparr>last_mean_values := push5 (last_mean_values st) norm_mean\<rparr>
         in if total_pixels = 0 then (Inl ZeroDivisionError, norm_mean, st1)
            else
              (let pixel_percentage = (sat_pixels / total_pixels) * 100;
                   adjustment =
                     (if sat_pixels = 0 then
                        (if max_value < 50 then 3.0
                         else if max_value < 100 then 1.5
                         else if max_value < 150 then 1.0
                         else if max_value < 180 then 0.7
                         else if max_value < 220 then 0.5
                         else 0.3)
                      else if 35 \<le> pixel_percentage \<and> pixel_percentage \<le> 45 then 0.0
                      else if 45 < pixel_percentage \<and> pixel_percentage \<le> 55 then - 0.5
                      else if 55 < pixel_percentage \<and> pixel_percentage \<le> 65 then - 1.0
                      else - 2.0)
               in (Inr adjustment, norm_mean, st1)))
      else (Inr 0.0, 0, st))"

definition contrast_branch :: "engine \<Rightarrow> report \<Rightarrow> real \<times> real \<times> engine" where
  \<comment> \<open>lines 1655-1731\<close>
  "contrast_branch st results =
     (if mean_contrast results \<noteq> None then
        (let contrast_value = get (mean_contrast results) 0;
             norm_mean = (if contrast_value < 0.02 then 5
                          else if contrast_value > 0.3 then 60
                          else 30);
             st1 = st\<lparr>last_mean_values := push5 (last_mean_values st) norm_mean\<rparr>;
             adjustment =
               (if contrast_value < 0.005 then 3.0
                else if contrast_value < 0.02 then 2.0
                else if contrast_value < 0.05 then 1.0
                else if contrast_value < 0.08 then 1.0
                else if contrast_value < 0.09 then 0.5
                else if 0.09 \<le> contrast_value \<and> contrast_value \<le> 0.26 then 0.0
                else if 0.26 < contrast_value \<and> contrast_value \<le> 0.28 then - 0.5
                else if 0.28 < contrast_value \<and> contrast_value \<le> 0.32 then - 1.0
                else if 0.32 < contrast_value \<and> contrast_value \<le> 0.4 then - 2.0
                else - 0.5)
         in (adjustment, norm_mean, st1))
      else (0.0, 0, st))"

definition method_branch :: "engine \<Rightarrow> report \<Rightarrow> string \<Rightarrow> (py_error + real) \<times> real \<times> engine" where
  \<comment> \<open>the dispatch on \<^verbatim>\<open>method\<close>; any other method leaves \<^verbatim>\<open>adjustment = 0.0\<close> and
      \<^verbatim>\<open>norm_mean = 0\<close>\<close>
  "method_branch st results method =
     (if method = ''histogram'' then
        (case histogram_branch st results of (a, nm, st1) \<Rightarrow> (Inr a, nm, st1))
      else if method = ''pixel_count'' then pixel_count_branch st results
      else if method = ''contrast'' then
        (case contrast_branch st results of (a, nm, st1) \<Rightarrow> (Inr a, nm, st1))
      else (Inr 0.0, 0, st))"

subsection \<open>Hysteresis, limits, history and oscillation guard\<close>

definition global_hysteresis :: "real \<Rightarrow> real" where
  \<comment> \<open>lines 1733-1737\<close>
  "global_hysteresis adjustment =
     (if \<bar>adjustment\<bar> < min_adjustment_threshold then 0.0 else adjustment)"

definition asymmetric_limits :: "real \<Rightarrow> real" where
  \<comment> \<open>lines 1742-1749\<close>
  "asymmetric_limits adjustment =
     (if adjustment > 0 then min 3.0 adjustment else max (- 0.5) adjustment)"

definition is_oscillating :: "engine \<Rightarrow> bool" where
  \<comment> \<open>lines 1761-1773, read after the current adjustment has been recorded\<close>
  "is_oscillating st =
     (let ms = last_mean_values st; adjs = last_adjustment_values st
      in (length ms \<ge> 3 \<and>
          \<bar>from_end ms 1 - from_end ms 2\<bar> > 30 \<and> \<bar>from_end ms 2 - from_end ms 3\<bar> > 30) \<or>
         (length adjs \<ge> 3 \<and>
          ((from_end adjs 1 > 0 \<and> from_end adjs 2 < 0) \<or>
           (from_end adjs 1 < 0 \<and> from_end adjs 2 > 0))))"

definition oscillation_guard :: "engine \<Rightarrow> real \<Rightarrow> real \<Rightarrow> real" where
  \<comment> \<open>lines 1758-1791\<close>
  "oscillation_guard st norm_mean adjustment =
     (if length (last_mean_values st) \<ge> 3 \<and> length (last_adjustment_values st) \<ge> 3 then
        (if is_oscillating st then
           (if norm_mean > 40 \<and> adjustment < 0 then max (- 0.1) (adjustment / 5.0)
            else if norm_mean < 10 \<and> adjustment > 0 then min 0.5 (adjustment / 2.0)
            else adjustment)
         else adjustment)
      else adjustment)"

definition limited_adjustment :: "engine \<Rightarrow> report \<Rightarrow> string \<Rightarrow> (py_error + real) \<times> real \<times> engine" where
  \<comment> \<open>everything up to line 1756: the adjustment after the limits, \<^verbatim>\<open>norm_mean\<close>, and the
      state with the adjustment recorded\<close>
  "limited_adjustment st results method =
     (case method_branch st results method of
        (Inl e, nm, st1) \<Rightarrow> (Inl e, nm, st1)
      | (Inr a, nm, st1) \<Rightarrow>
          (let adjustment = asymmetric_limits (global_hysteresis a);
               st2 = st1\<lparr>last_adjustment_values :=
                          push5 (last_adjustment_values st1) adjustment\<rparr>
           in (Inr adjustment, nm, st2)))"

definition calculate_current_adjustment :: "engine \<Rightarrow> report \<Rightarrow> string \<Rightarrow> (py_error + real) \<times> engine" where
  "calculate_current_adjustment st results method =
     (case limited_adjustment st results method of
        (Inl e, nm, st2) \<Rightarrow> (Inl e, st2)
      | (Inr adjustment, nm, st2) \<Rightarrow> (Inr (oscillation_guard st2 nm adjustment), st2))"

subsection \<open>Fusion and the target percentage: the end of \<^verbatim>\<open>generate_analysis\<close>\<close>

definition py_int :: "real \<Rightarrow> int" where
  \<comment> \<open>\<^verbatim>\<open>int(x)\<close> of a float truncates towards zero\<close>
  "py_int x = (if x \<ge> 0 then \<lfloor>x\<rfloor> else \<lceil>x\<rceil>)"

definition limit5 :: "real \<Rightarrow> real" where
  \<comment> \<open>\<^verbatim>\<open>max(-5.0, min(5.0, adjustment))\<close>, applied to each method's result\<close>
  "limit5 adjustment = max (- 5.0) (min 5.0 adjustment)"

definition final_adjustment :: "real list \<Rightarrow> real" where
  \<comment> \<open>\<^verbatim>\<open>sum(adjustments) / len(adjustments)\<close>, reached only for a non-empty list\<close>
  "final_adjustment adjustments = sum_list adjustments / real (length adjustments)"

definition new_value :: "int \<Rightarrow> real list \<Rightarrow> int" where
  \<comment> \<open>line 789\<close>
  "new_value cur adjustments =
     max 0 (min 100 (py_int (real_of_int cur + final_adjustment adjustments)))"

section \<open>Images and weight fields\<close>

text \<open>
  A numpy image is its dtype and its rows of samples; a weight field is its rows of
  reals. \<^verbatim>\<open>flatten()\<close> is \<^const>\<open>concat\<close>. Two arrays have the same shape when their rows
  have the same lengths. numpy broadcasts a field with a singleton dimension against a
  larger image; no caller in the repository builds such a field, and the model treats every
  shape mismatch as the error numpy raises for incompatible shapes. A division of numpy
  floats by zero gives nan or inf and a warning, never an exception; a real number cannot
  be nan, so a theorem about the value of such a quotient carries the hypothesis that the
  divisor is not zero. The real exponential is positive everywhere, where numpy's
  underflows to 0.0 on arguments below about -745; the theorems about the weight builders
  are evaluations on small fields and pointwise identities, and none of them rests on a
  weight being positive.
\<close>

datatype dtype = UInt8 | UInt16

record image =
  img_dtype :: dtype
  img_rows :: "nat list list"

type_synonym weight_field = "real list list"

definition rectangular :: "'a list list \<Rightarrow> bool" where
  \<comment> \<open>every row of an array has the array's width\<close>
  "rectangular rows = (\<forall>r\<in>set rows. length r = (case rows of [] \<Rightarrow> 0 | r0 # _ \<Rightarrow> length r0))"

definition shape_of :: "'a list list \<Rightarrow> nat list" where
  "shape_of rows = map length rows"

definition height_width :: "'a list list \<Rightarrow> nat \<times> nat" where
  \<comment> \<open>\<^verbatim>\<open>height, width = img.shape\<close>\<close>
  "height_width rows = (length rows, (case rows of [] \<Rightarrow> 0 | r # _ \<Rightarrow> length r))"

definition max_possible_value :: "dtype \<Rightarrow> nat" where
  "max_possible_value d = (case d of UInt16 \<Rightarrow> 65535 | UInt8 \<Rightarrow> 255)"

definition np_max :: "real list \<Rightarrow> py_error + real" where
  \<comment> \<open>\<^verbatim>\<open>a.max()\<close>: a zero-size array has no maximum\<close>
  "np_max xs = (case xs of [] \<Rightarrow> Inl ValueError | x # ys \<Rightarrow> Inr (fold max ys x))"

definition np_average :: "real list \<Rightarrow> real list \<Rightarrow> py_error + real" where
  \<comment> \<open>\<^verbatim>\<open>np.average(a, weights=w)\<close> on flattened arrays: it refuses weights of another shape and
      weights that sum to zero\<close>
  "np_average a w =
     (if length a \<noteq> length w then Inl TypeError
      else if sum_list w = 0 then Inl ZeroDivisionError
      else Inr (sum_list (map2 (*) a w) / sum_list w))"

subsection \<open>The radial weight builders\<close>

definition squared_dist :: "nat \<times> nat \<Rightarrow> real \<times> real \<Rightarrow> real list list" where
  \<comment> \<open>\<^verbatim>\<open>y, x = np.ogrid[:h, :w]; (y - center[0])**2 + (x - center[1])**2\<close>\<close>
  "squared_dist shape center =
     map (\<lambda>y. map (\<lambda>x. (real y - fst center)\<^sup>2 + (real x - snd center)\<^sup>2) [0..<snd shape])
         [0..<fst shape]"

definition default_center :: "nat \<times> nat \<Rightarrow> real \<times> real" where
  "default_center shape = (real (fst shape div 2), real (snd shape div 2))"

definition create_radial_weight_mask_analyzer ::
    "nat \<times> nat \<Rightarrow> (real \<times> real) option \<Rightarrow> real option \<Rightarrow> py_error + weight_field" where
  \<comment> \<open>\<^verbatim>\<open>create_radial_weight_mask(img_shape, center, sigma)\<close> of histogram_saturation_analyzer.py
      (the same text is in saturation_pixel_count_analyzer.py and contrast_analyzer.py)\<close>
  "create_radial_weight_mask_analyzer img_shape center sigma =
     (let center = (case center of None \<Rightarrow> default_center img_shape | Some c \<Rightarrow> c);
          sigma = (case sigma of None \<Rightarrow> real (min (fst img_shape) (snd img_shape) div 6)
                   | Some s \<Rightarrow> s);
          dist_from_center = map (map sqrt) (squared_dist img_shape center);
          weight_mask = map (map (\<lambda>d. exp (- 0.5 * (d / sigma)\<^sup>2))) dist_from_center;
          weight_mask = map (map (\<lambda>v. v\<^sup>2)) weight_mask
      in case np_max (concat weight_mask) of
           Inl e \<Rightarrow> Inl e
         | Inr m \<Rightarrow> Inr (map (map (\<lambda>v. v / m)) weight_mask))"

definition create_radial_weight_mask ::
    "nat \<times> nat \<Rightarrow> (real \<times> real) option \<Rightarrow> real option \<Rightarrow> real option \<Rightarrow> weight_field" where
  \<comment> \<open>\<^verbatim>\<open>create_radial_weight_mask(shape, center, sigma, flat_top_radius)\<close> of
      laser_speckle_UI/updated_widget.py, lines 1925-1976\<close>
  "create_radial_weight_mask shape center sigma flat_top_radius =
     (let center = (case center of None \<Rightarrow> default_center shape | Some c \<Rightarrow> c);
          sigma = (case sigma of None \<Rightarrow> real (min (fst shape) (snd shape) div 2)
                   | Some s \<Rightarrow> s);
          sd = squared_dist shape center
      in case flat_top_radius of
           None \<Rightarrow> map (map (\<lambda>d2. exp (- d2 / (2 * sigma\<^sup>2)))) sd
         | Some r \<Rightarrow>
             if r > 0
             then map (map (\<lambda>d2. if d2 \<le> r\<^sup>2 then 1.0
                                  else exp (- (d2 - r\<^sup>2) / (2 * sigma\<^sup>2)))) sd
             else map (map (\<lambda>d2. exp (- d2 / (2 * sigma\<^sup>2)))) sd)"

definition plain_gaussian :: "nat \<times> nat \<Rightarrow> real \<times> real \<Rightarrow> real \<Rightarrow> weight_field" where
  \<comment> \<open>the specification's plain Gaussian formula,
      \<^verbatim>\<open>exp(-0.5 * (distance(p, center) / sigma)^2)\<close>, pixel by pixel\<close>
  "plain_gaussian shape center sigma =
     map (\<lambda>y. map (\<lambda>x. exp (- 0.5 *
                 (sqrt ((real y - fst center)\<^sup>2 + (real x - snd center)\<^sup>2) / sigma)\<^sup>2))
                [0..<snd shape])
         [0..<fst shape]"

definition distance :: "nat \<times> nat \<Rightarrow> real \<times> real \<Rightarrow> real" where
  \<comment> \<open>Euclidean distance from the pixel in row \<open>y\<close>, column \<open>x\<close> to the center\<close>
  "distance p center = sqrt ((real (fst p) - fst center)\<^sup>2 + (real (snd p) - snd center)\<^sup>2)"

section \<open>The histogram-saturation estimator\<close>

definition to_8bit :: "dtype \<Rightarrow> nat \<Rightarrow> nat" where
  \<comment> \<open>\<^verbatim>\<open>(flat_img / 256).astype(np.uint8)\<close> for a 16-bit image, the sample itself otherwise\<close>
  "to_8bit d v = (case d of UInt16 \<Rightarrow> v div 256 | UInt8 \<Rightarrow> v)"

definition bin_index :: "nat \<Rightarrow> nat option" where
  \<comment> \<open>the bin of \<^verbatim>\<open>np.histogram(_, bins=256, range=(0, 255))\<close>: 256 bins of width 255/256,
      the last one closed on the right, samples beyond the range dropped\<close>
  "bin_index v =
     (if v > 255 then None else if v = 255 then Some 255 else Some ((v * 256) div 255))"

definition np_histogram :: "nat list \<Rightarrow> real list \<Rightarrow> real list" where
  \<comment> \<open>the weighted counts: every sample adds its weight to its bin\<close>
  "np_histogram vals ws =
     foldl (\<lambda>h (v, w). case bin_index v of None \<Rightarrow> h | Some b \<Rightarrow> h[b := h ! b + w])
           (replicate 256 0) (zip vals ws)"

definition slice_from :: "'a list \<Rightarrow> int \<Rightarrow> 'a list" where
  \<comment> \<open>\<^verbatim>\<open>xs[k:]\<close>; a negative \<open>k\<close> counts from the end\<close>
  "slice_from xs k = (if k \<ge> 0 then drop (nat k) xs else drop (nat (int (length xs) + k)) xs)"

definition analyze_saturation_by_histogram ::
    "image \<Rightarrow> real \<Rightarrow> real \<Rightarrow> real option \<Rightarrow> weight_field option \<Rightarrow> py_error + report" where
  \<comment> \<open>histogram_saturation_analyzer.py, lines 98-238. The entries of the result that no
      modelled consumer reads (standard deviation, percentiles, maps) are left out; they
      add no failure of their own once the weighted average has succeeded.\<close>
  "analyze_saturation_by_histogram img high_intensity_threshold critical_bin_threshold
       weight_sigma weight_mask =
     (case (case weight_mask of
              None \<Rightarrow> create_radial_weight_mask_analyzer (height_width (img_rows img)) None weight_sigma
            | Some m \<Rightarrow> Inr m) of
        Inl e \<Rightarrow> Inl e
      | Inr weight_mask \<Rightarrow>
          (let flat_img = concat (img_rows img);
               flat_weights = concat weight_mask
           in if length flat_img \<noteq> length flat_weights then Inl ValueError
              else
                (let hist = np_histogram (map (to_8bit (img_dtype img)) flat_img) flat_weights;
                     total_weight = sum_list flat_weights;
                     hist_percentage = map (\<lambda>c. (c / total_weight) * 100) hist;
                     high_threshold_8bit = py_int (255 * high_intensity_threshold);
                     high_intensity_sum = sum_list (slice_from hist_percentage high_threshold_8bit);
                     highest_bin_percentage = last hist_percentage;
                     is_saturated = (highest_bin_percentage > critical_bin_threshold \<or>
                                     high_intensity_sum > 10)
                 in case np_average (map real flat_img) flat_weights of
                      Inl e \<Rightarrow> Inl e
                    | Inr wmean \<Rightarrow>
                        if shape_of (img_rows img) \<noteq> shape_of weight_mask then Inl ValueError
                        else Inr (empty_report
                               \<lparr>highest_bin_percentage := Some highest_bin_percentage,
                                high_intensity_sum := Some high_intensity_sum,
                                weighted_mean := Some wmean,
                                is_saturated := Some is_saturated\<rparr>))))"

definition top_bin_mass :: "image \<Rightarrow> weight_field \<Rightarrow> real" where
  \<comment> \<open>the claim's words: the weighted percentage of mass in the top histogram bin, that is,
      on the samples whose 8-bit value is 255\<close>
  "top_bin_mass img w =
     (sum_list (map snd (filter (\<lambda>(v, x). to_8bit (img_dtype img) v = 255)
                               (zip (concat (img_rows img)) (concat w))))
      / sum_list (concat w)) * 100"

definition high_intensity_mass :: "image \<Rightarrow> weight_field \<Rightarrow> real \<Rightarrow> real" where
  \<comment> \<open>the claim's words: the weighted percentage of mass at or above the high-intensity
      threshold \<^verbatim>\<open>int(255 * high_intensity_threshold)\<close> on the 8-bit scale\<close>
  "high_intensity_mass img w high_intensity_threshold =
     (sum_list (map snd (filter (\<lambda>(v, x). to_8bit (img_dtype img) v \<le> 255 \<and>
                                        int (to_8bit (img_dtype img) v)
                                          \<ge> py_int (255 * high_intensity_threshold))
                               (zip (concat (img_rows img)) (concat w))))
      / sum_list (concat w)) * 100"

section \<open>The pixel-count-saturation estimator\<close>

definition pixel_count_report :: "nat list \<Rightarrow> real list \<Rightarrow> int \<Rightarrow> real \<Rightarrow> report" where
  \<comment> \<open>saturation_pixel_count_analyzer.py, lines 126-145 and the result dictionary, on the
      flattened image and weights\<close>
  "pixel_count_report flat_img flat_weights sat_threshold_value max_weighted_saturation =
     (let saturation_mask = map (\<lambda>v. int v > sat_threshold_value) flat_img;
          n_saturated = length (filter (\<lambda>b. b) saturation_mask);
          weighted_saturation =
            sum_list (map2 (\<lambda>b w. if b then w else 0) saturation_mask flat_weights);
          total_weight = sum_list flat_weights;
          n_total = length flat_img;
          sat_pct = (real n_saturated / real n_total) * 100;
          weighted_sat_pct = (weighted_saturation / total_weight) * 100;
          saturated = (weighted_saturation > max_weighted_saturation \<or> weighted_sat_pct > 0.5)
      in empty_report
           \<lparr>saturated_pixels := Some (real n_saturated),
            saturated_percentage := Some sat_pct,
            weighted_saturation_percentage := Some weighted_sat_pct,
            is_saturated := Some saturated\<rparr>)"

definition analyze_saturation_by_pixel_count ::
    "image \<Rightarrow> real \<Rightarrow> real \<Rightarrow> real option \<Rightarrow> weight_field option \<Rightarrow> py_error + report" where
  \<comment> \<open>saturation_pixel_count_analyzer.py, lines 96-177, without the visualisation map\<close>
  "analyze_saturation_by_pixel_count img saturation_threshold max_weighted_saturation
       weight_sigma weight_mask =
     (case (case weight_mask of
              None \<Rightarrow> create_radial_weight_mask_analyzer (height_width (img_rows img)) None weight_sigma
            | Some m \<Rightarrow> Inr m) of
        Inl e \<Rightarrow> Inl e
      | Inr weight_mask \<Rightarrow>
          if shape_of (img_rows img) \<noteq> shape_of weight_mask then Inl ValueError
          else Inr (pixel_count_report (concat (img_rows img)) (concat weight_mask)
                      (py_int (real (max_possible_value (img_dtype img)) * saturation_threshold))
                      max_weighted_saturation))"

section \<open>The contrast estimator\<close>

definition np_mean :: "real list \<Rightarrow> real" where
  "np_mean xs = sum_list xs / real (length xs)"

definition np_std :: "real list \<Rightarrow> real" where
  \<comment> \<open>the population standard deviation\<close>
  "np_std xs = sqrt (np_mean (map (\<lambda>x. (x - np_mean xs)\<^sup>2) xs))"

definition np_median :: "real list \<Rightarrow> real" where
  "np_median xs =
     (let s = sort xs; n = length s
      in if odd n then s ! (n div 2) else (s ! (n div 2 - 1) + s ! (n div 2)) / 2)"

definition reflect_index :: "nat \<Rightarrow> int \<Rightarrow> nat" where
  \<comment> \<open>the source index of position \<open>i\<close> (counted from the first sample, negative on the left)
      under \<^verbatim>\<open>mode='reflect'\<close>: mirrored at the first and last sample without repeating
      them; an axis of length 1 repeats its only sample\<close>
  "reflect_index n i =
     (if n \<le> 1 then 0
      else (let m = 2 * (int n - 1); j = i mod m
            in if j < int n then nat j else nat (m - j)))"

definition pad_reflect :: "nat \<Rightarrow> 'a list \<Rightarrow> 'a list" where
  "pad_reflect p xs =
     map (\<lambda>k. xs ! reflect_index (length xs) (int k - int p)) [0..<length xs + 2 * p]"

definition np_pad_reflect :: "nat \<Rightarrow> 'a list list \<Rightarrow> 'a list list" where
  \<comment> \<open>\<^verbatim>\<open>np.pad(img, p, mode='reflect')\<close> on both axes\<close>
  "np_pad_reflect p rows = pad_reflect p (map (pad_reflect p) rows)"

definition window_at :: "'a list list \<Rightarrow> nat \<Rightarrow> nat \<Rightarrow> nat \<Rightarrow> 'a list" where
  \<comment> \<open>\<^verbatim>\<open>padded_img[y:y+window_size, x:x+window_size]\<close>, flattened\<close>
  "window_at padded window_size y x =
     concat (map (\<lambda>r. take window_size (drop x r)) (take window_size (drop y padded)))"

definition local_contrast :: "real list \<Rightarrow> real" where
  \<comment> \<open>lines 150-156\<close>
  "local_contrast window =
     (let local_mean = np_mean window
      in if local_mean > 0 then np_std window / local_mean else 0)"

definition contrast_map_of :: "nat list list \<Rightarrow> nat \<Rightarrow> real list list" where
  \<comment> \<open>lines 137-156: the two nested loops over the image\<close>
  "contrast_map_of rows window_size =
     (let half_window = window_size div 2;
          hw = height_width rows;
          padded_img = np_pad_reflect half_window rows
      in map (\<lambda>y. map (\<lambda>x. local_contrast (map real (window_at padded_img window_size y x)))
                       [0..<snd hw])
             [0..<fst hw])"

definition analyze_contrast ::
    "image \<Rightarrow> nat \<Rightarrow> real option \<Rightarrow> weight_field option \<Rightarrow> py_error + (report \<times> real list list)" where
  \<comment> \<open>contrast_analyzer.py, lines 98-232; gives the report and the contrast map. The band
      percentages and the visualisation are left out.\<close>
  "analyze_contrast img window_size weight_sigma weight_mask =
     (case (case weight_mask of
              None \<Rightarrow> create_radial_weight_mask_analyzer (height_width (img_rows img)) None weight_sigma
            | Some m \<Rightarrow> Inr m) of
        Inl e \<Rightarrow> Inl e
      | Inr weight_mask \<Rightarrow>
          (let flat_img = map real (concat (img_rows img));
               flat_weights = concat weight_mask
           in case np_average flat_img flat_weights of
                Inl e \<Rightarrow> Inl e
              | Inr wmean \<Rightarrow>
                  (case np_average (map (\<lambda>v. (v - wmean)\<^sup>2) flat_img) flat_weights of
                     Inl e \<Rightarrow> Inl e
                   | Inr weighted_variance \<Rightarrow>
                       (let weighted_std = sqrt weighted_variance;
                            gc = (if wmean > 0 then weighted_std / wmean else 0);
                            contrast_map = contrast_map_of (img_rows img) window_size
                        in if shape_of (img_rows img) \<noteq> shape_of weight_mask then Inl ValueError
                           else
                             (case np_average (concat contrast_map) flat_weights of
                                Inl e \<Rightarrow> Inl e
                              | Inr wmc \<Rightarrow>
                                  Inr (empty_report
                                        \<lparr>global_contrast := Some gc,
                                         mean_contrast := Some (np_mean (concat contrast_map)),
                                         median_contrast := Some (np_median (concat contrast_map)),
                                         weighted_mean_contrast := Some wmc\<rparr>,
                                       contrast_map))))))"

section \<open>One estimator step of the control loop\<close>

definition run_histogram ::
    "engine \<Rightarrow> real list \<Rightarrow> image \<Rightarrow> weight_field \<Rightarrow> engine \<times> real list \<times> py_error list" where
  \<comment> \<open>\<^verbatim>\<open>generate_analysis\<close>, lines 580-650: the histogram estimator and the engine run inside
      \<^verbatim>\<open>try ... except Exception\<close>; an exception is logged as an error and the loop goes on
      with the list of adjustments as it was. Gives the state, the adjustments and the
      errors logged.\<close>
  "run_histogram st adjustments roi_image roi_weight_mask =
     (case analyze_saturation_by_histogram roi_image 0.9 0.1 None (Some roi_weight_mask) of
        Inl e \<Rightarrow> (st, adjustments, [e])
      | Inr results \<Rightarrow>
          (case calculate_current_adjustment st results ''histogram'' of
             (Inl e, st1) \<Rightarrow> (st1, adjustments, [e])
           | (Inr adjustment, st1) \<Rightarrow> (st1, adjustments @ [limit5 adjustment], [])))"

section \<open>Concrete inputs\<close>

text \<open>Reports and controller states on which the theorems below are evaluated.\<close>

definition saturated_report :: report where
  \<comment> \<open>a pixel-count report of a fully saturated image\<close>
  "saturated_report = empty_report\<lparr>is_saturated := Some True,
                                   weighted_saturation_percentage := Some 100\<rparr>"

definition osc_state :: engine where
  \<comment> \<open>the controller after three cycles on \<^const>\<open>saturated_report\<close>, each followed by the
      automatic decrease of the current by one percent\<close>
  "osc_state = \<lparr>current_value = 17, prev_high_sum = None, stable_count = 0,
      last_mean_values = [70, 70, 70], last_adjustment_values = [- 0.5, - 0.5, - 0.5]\<rparr>"

definition dim_report :: report where
  \<comment> \<open>a histogram report with normalised mean 20\<close>
  "dim_report = empty_report\<lparr>weighted_mean := Some 51, high_intensity_sum := Some 0\<rparr>"

definition dark_report :: report where
  \<comment> \<open>a histogram report of a black frame\<close>
  "dark_report = empty_report\<lparr>weighted_mean := Some 0, high_intensity_sum := Some 0\<rparr>"

definition frame_120 :: report where
  \<comment> \<open>a histogram report with mean intensity 120\<close>
  "frame_120 = empty_report\<lparr>weighted_mean := Some 120, high_intensity_sum := Some 5,
                            highest_bin_percentage := Some 0\<rparr>"

definition after_frames :: "nat \<Rightarrow> real list \<Rightarrow> engine" where
  \<comment> \<open>the controller after some frames \<^const>\<open>frame_120\<close> at 20 percent\<close>
  "after_frames n ds = \<lparr>current_value = 20, prev_high_sum = Some 5, stable_count = n,
      last_mean_values = [], last_adjustment_values = ds\<rparr>"

definition clipped_image :: image where
  \<comment> \<open>one row of two 8-bit samples, one of them at the maximum\<close>
  "clipped_image = \<lparr>img_dtype = UInt8, img_rows = [[255, 0]]\<rparr>"

definition white_image :: image where
  \<comment> \<open>a uniform 8-bit image, every sample 255\<close>
  "white_image = \<lparr>img_dtype = UInt8, img_rows = [[255, 255]]\<rparr>"

definition black_pixel :: image where
  "black_pixel = \<lparr>img_dtype = UInt8, img_rows = [[0]]\<rparr>"

definition unit_weights :: weight_field where
  "unit_weights = [[1, 1]]"

definition zero_weights :: weight_field where
  \<comment> \<open>a degenerate weight field\<close>
  "zero_weights = [[0]]"

definition one_weight :: weight_field where
  "one_weight = [[1]]"

section \<open>Properties of the decision engine\<close>

subsection \<open>Bounds of the adjustment\<close>

lemma asymmetric_limits_range: "- 0.5 \<le> asymmetric_limits a \<and> asymmetric_limits a \<le> 3"
  by (simp add: asymmetric_limits_def)

lemma oscillation_guard_range:
  "- 0.5 \<le> a \<Longrightarrow> a \<le> 3 \<Longrightarrow>
   - 0.5 \<le> oscillation_guard st nm a \<and> oscillation_guard st nm a \<le> 3"
  by (auto simp: oscillation_guard_def min_def max_def)

lemma limited_adjustment_range:
  "limited_adjustment st r m = (Inr a, nm, st2) \<Longrightarrow> - 0.5 \<le> a \<and> a \<le> 3"
  using asymmetric_limits_range
  by (auto simp: limited_adjustment_def Let_def split: prod.splits sum.splits)

lemma method_branch_error:
  "method_branch st r m = (Inl e, nm, st1) \<Longrightarrow>
   e = ZeroDivisionError \<and> m = ''pixel_count'' \<and> total_pixels r = Some 0"
  by (auto simp: method_branch_def pixel_count_branch_def Let_def get_def
           split: prod.splits if_splits option.splits)

lemma new_value_range: "0 \<le> new_value cur adjs \<and> new_value cur adjs \<le> 100"
  by (simp add: new_value_def)

text \<open>
  Claim C1. For every report, every method and every controller state, the adjustment
  that \<^const>\<open>calculate_current_adjustment\<close> returns lies in \<open>[-1.0, 3.0]\<close>; the call returns
  no adjustment only when the pixel-count branch divides by a \<^verbatim>\<open>total_pixels\<close> entry equal
  to 0. The target percentage that \<^verbatim>\<open>generate_analysis\<close> computes from the current
  percentage and the fused adjustments lies in \<open>[0, 100]\<close>.
\<close>

theorem adjustment_and_target_bounded:
  "(case fst (calculate_current_adjustment st results method) of
      Inl e \<Rightarrow> e = ZeroDivisionError \<and> method = ''pixel_count'' \<and> total_pixels results = Some 0
    | Inr adjustment \<Rightarrow> - 1.0 \<le> adjustment \<and> adjustment \<le> 3.0) \<and>
   0 \<le> new_value cur (map limit5 adjustments) \<and> new_value cur (map limit5 adjustments) \<le> 100"
proof -
  obtain res nm st2 where L: "limited_adjustment st results method = (res, nm, st2)"
    by (cases "limited_adjustment st results method") auto
  show ?thesis
  proof (cases res)
    case (Inl e)
    with L obtain st1 where "method_branch st results method = (Inl e, nm, st1)"
      by (auto simp: limited_adjustment_def Let_def split: prod.splits sum.splits)
    from method_branch_error[OF this] L Inl show ?thesis
      by (simp add: calculate_current_adjustment_def new_value_range)
  next
    case (Inr a)
    with L have "- 0.5 \<le> a \<and> a \<le> 3" using limited_adjustment_range by blast
    then have "- 0.5 \<le> oscillation_guard st2 nm a \<and> oscillation_guard st2 nm a \<le> 3"
      using oscillation_guard_range by blast
    with L Inr show ?thesis
      by (simp add: calculate_current_adjustment_def new_value_range)
  qed
qed

subsection \<open>The engine on a saturated pixel-count report\<close>

lemma engine_on_saturated:
  assumes "is_saturated rep = Some True" "weighted_saturation_percentage rep = Some 100"
  shows "calculate_current_adjustment st rep ''pixel_count'' =
           (let st2 = st\<lparr>last_mean_values := push5 (last_mean_values st) 70,
                          last_adjustment_values := push5 (last_adjustment_values st) (- 0.5)\<rparr>
            in (Inr (if length (last_mean_values st2) \<ge> 3 \<and> length (last_adjustment_values st2) \<ge> 3 \<and>
                        is_oscillating st2 then - 0.1 else - 0.5), st2))"
  using assms
  by (simp add: calculate_current_adjustment_def limited_adjustment_def method_branch_def
      pixel_count_branch_def get_def global_hysteresis_def asymmetric_limits_def
      oscillation_guard_def Let_def)

subsection \<open>Evaluation on the concrete inputs\<close>

lemma osc_state_reached:
  "(snd (calculate_current_adjustment
      ((snd (calculate_current_adjustment
          ((snd (calculate_current_adjustment fresh_engine saturated_report ''pixel_count''))
             \<lparr>current_value := 19\<rparr>)
          saturated_report ''pixel_count''))\<lparr>current_value := 18\<rparr>)
      saturated_report ''pixel_count''))\<lparr>current_value := 17\<rparr> = osc_state"
proof -
  have f: "is_saturated saturated_report = Some True"
          "weighted_saturation_percentage saturated_report = Some 100"
    by (simp_all add: saturated_report_def empty_report_def)
  show ?thesis
    unfolding engine_on_saturated[OF f]
    by (simp add: Let_def fresh_engine_def osc_state_def push5_def is_oscillating_def from_end_def)
qed

lemma dim_branch:
  "histogram_branch osc_state dim_report = (1, 20, osc_state\<lparr>prev_high_sum := Some 0\<rparr>)"
proof -
  have 1: "update_stability osc_state 0 = osc_state\<lparr>prev_high_sum := Some 0\<rparr>"
    by (simp add: update_stability_def osc_state_def)
  have 2: "histogram_ladder (osc_state\<lparr>prev_high_sum := Some 0\<rparr>) 20 0 0 0 = 1"
    by (simp add: histogram_ladder_def case0_dark_def osc_state_def)
  have 3: "stability_damping (osc_state\<lparr>prev_high_sum := Some 0\<rparr>) 1 = 1"
    by (simp add: stability_damping_def osc_state_def)
  have 4: "histogram_hysteresis (osc_state\<lparr>prev_high_sum := Some 0\<rparr>) 1 = 1"
    by (simp add: histogram_hysteresis_def osc_state_def)
  show ?thesis
    by (simp add: histogram_branch_def dim_report_def empty_report_def get_def 1 2 3 4)
qed

lemma dark_branch:
  "histogram_branch osc_state dark_report = (3, 0, osc_state\<lparr>prev_high_sum := Some 0\<rparr>)"
proof -
  have 1: "update_stability osc_state 0 = osc_state\<lparr>prev_high_sum := Some 0\<rparr>"
    by (simp add: update_stability_def osc_state_def)
  have 2: "histogram_ladder (osc_state\<lparr>prev_high_sum := Some 0\<rparr>) 0 0 0 0 = 3"
    by (simp add: histogram_ladder_def case0_dark_def osc_state_def)
  have 3: "stability_damping (osc_state\<lparr>prev_high_sum := Some 0\<rparr>) 3 = 3"
    by (simp add: stability_damping_def osc_state_def)
  have 4: "histogram_hysteresis (osc_state\<lparr>prev_high_sum := Some 0\<rparr>) 3 = 3"
    by (simp add: histogram_hysteresis_def osc_state_def)
  show ?thesis
    by (simp add: histogram_branch_def dark_report_def empty_report_def get_def 1 2 3 4)
qed

lemma dim_limited:
  "limited_adjustment osc_state dim_report ''histogram'' =
     (Inr 1, 20, osc_state\<lparr>prev_high_sum := Some 0, last_adjustment_values := [- 0.5, - 0.5, - 0.5, 1]\<rparr>)"
  apply (simp add: limited_adjustment_def method_branch_def dim_branch
      global_hysteresis_def asymmetric_limits_def)
  apply (simp add: push5_def osc_state_def)
  done

lemma dark_limited:
  "limited_adjustment osc_state dark_report ''histogram'' =
     (Inr 3, 0, osc_state\<lparr>prev_high_sum := Some 0, last_adjustment_values := [- 0.5, - 0.5, - 0.5, 3]\<rparr>)"
  apply (simp add: limited_adjustment_def method_branch_def dark_branch
      global_hysteresis_def asymmetric_limits_def)
  apply (simp add: push5_def osc_state_def)
  done

lemma dim_calc:
  "calculate_current_adjustment osc_state dim_report ''histogram'' =
     (Inr 1, osc_state\<lparr>prev_high_sum := Some 0, last_adjustment_values := [- 0.5, - 0.5, - 0.5, 1]\<rparr>)"
  unfolding calculate_current_adjustment_def dim_limited
  by (simp add: oscillation_guard_def is_oscillating_def from_end_def osc_state_def)

lemma dark_calc:
  "calculate_current_adjustment osc_state dark_report ''histogram'' =
     (Inr 0.5, osc_state\<lparr>prev_high_sum := Some 0, last_adjustment_values := [- 0.5, - 0.5, - 0.5, 3]\<rparr>)"
  unfolding calculate_current_adjustment_def dark_limited
  by (simp add: oscillation_guard_def is_oscillating_def from_end_def osc_state_def)

text \<open>
  An instance of the bounds: the black frame on the controller that has just decreased
  three times.
\<close>

theorem adjustment_and_target_bounded_witness:
  "(case fst (calculate_current_adjustment osc_state dark_report ''histogram'') of
      Inl e \<Rightarrow> e = ZeroDivisionError \<and> ''histogram'' = ''pixel_count'' \<and>
               total_pixels dark_report = Some 0
    | Inr adjustment \<Rightarrow> - 1.0 \<le> adjustment \<and> adjustment \<le> 3.0) \<and>
   0 \<le> new_value 17 (map limit5 [0.5]) \<and> new_value 17 (map limit5 [0.5]) \<le> 100 \<and>
   fst (calculate_current_adjustment osc_state dark_report ''histogram'') = Inr 0.5 \<and>
   new_value 17 (map limit5 [0.5]) = 17"
proof -
  have v: "new_value 17 (map limit5 [0.5]) = 17"
    by (simp add: new_value_def limit5_def final_adjustment_def py_int_def)
  have "(case fst (calculate_current_adjustment osc_state dark_report ''histogram'') of
           Inl e \<Rightarrow> e = ZeroDivisionError \<and> ''histogram'' = ''pixel_count'' \<and>
                    total_pixels dark_report = Some 0
         | Inr adjustment \<Rightarrow> - 1.0 \<le> adjustment \<and> adjustment \<le> 3.0) \<and>
        0 \<le> new_value 17 (map limit5 [0.5]) \<and> new_value 17 (map limit5 [0.5]) \<le> 100"
    by (rule adjustment_and_target_bounded)
  with v show ?thesis by (simp add: dark_calc)
qed

subsection \<open>The oscillation guard\<close>

text \<open>
  Claim C2, as stated, fails. The state \<^const>\<open>osc_state\<close> is the controller after three
  saturated pixel-count cycles. On it the report \<^const>\<open>dim_report\<close> gives an
  increase of 1 after a decrease, so oscillation is flagged; the normalised mean is 20,
  neither above 40 nor below 10, and the increase is returned at full magnitude. On the
  same state the black frame gives an increase of 3 from a dark state; it is returned as
  0.5, a sixth of it and not a half.
\<close>

theorem oscillation_shrink_counterexample:
  "is_oscillating (snd (calculate_current_adjustment osc_state dim_report ''histogram'')) \<and>
   fst (limited_adjustment osc_state dim_report ''histogram'') = Inr 1 \<and>
   fst (calculate_current_adjustment osc_state dim_report ''histogram'') = Inr 1 \<and>
   is_oscillating (snd (calculate_current_adjustment osc_state dark_report ''histogram'')) \<and>
   fst (limited_adjustment osc_state dark_report ''histogram'') = Inr 3 \<and>
   fst (calculate_current_adjustment osc_state dark_report ''histogram'') = Inr 0.5"
  unfolding dim_calc dark_calc dim_limited dark_limited
  by (simp add: is_oscillating_def from_end_def osc_state_def)

text \<open>
  Claim C2, amended. Let the cycle have reached the oscillation check with the limited
  adjustment recorded, at least 3 mean readings and at least 3 adjustments in the
  histories. If the two most recent adjustments have opposite signs, or the last two gaps
  between consecutive mean readings each exceed 30, then oscillation is flagged, and the
  returned adjustment is: a fifth of the adjustment when it is negative and the
  normalised mean is above 40; half of the adjustment, capped at 0.5, when it is positive
  and the normalised mean is below 10; the adjustment unchanged in every other case.
\<close>

theorem oscillation_shrink:
  assumes L: "limited_adjustment st results method = (Inr adjustment, norm_mean, st2)"
    and len: "length (last_mean_values st2) \<ge> 3" "length (last_adjustment_values st2) \<ge> 3"
    and osc: "(from_end (last_adjustment_values st2) 1 > 0 \<and>
               from_end (last_adjustment_values st2) 2 < 0) \<or>
              (from_end (last_adjustment_values st2) 1 < 0 \<and>
               from_end (last_adjustment_values st2) 2 > 0) \<or>
              (\<bar>from_end (last_mean_values st2) 1 - from_end (last_mean_values st2) 2\<bar> > 30 \<and>
               \<bar>from_end (last_mean_values st2) 2 - from_end (last_mean_values st2) 3\<bar> > 30)"
  shows "is_oscillating st2 \<and>
         calculate_current_adjustment st results method =
           (Inr (if norm_mean > 40 \<and> adjustment < 0 then adjustment / 5
                 else if norm_mean < 10 \<and> adjustment > 0 then min 0.5 (adjustment / 2)
                 else adjustment), st2)"
proof -
  have flag: "is_oscillating st2"
    using len osc by (auto simp: is_oscillating_def Let_def)
  have "- 0.5 \<le> adjustment" using limited_adjustment_range[OF L] by simp
  then have "max (- 0.1) (adjustment / 5) = adjustment / 5" by simp
  with flag len L show ?thesis
    by (simp add: calculate_current_adjustment_def oscillation_guard_def)
qed

theorem oscillation_shrink_witness:
  "is_oscillating (osc_state\<lparr>prev_high_sum := Some 0,
                             last_adjustment_values := [- 0.5, - 0.5, - 0.5, 3]\<rparr>) \<and>
   calculate_current_adjustment osc_state dark_report ''histogram'' =
     (Inr (min 0.5 (3 / 2)),
      osc_state\<lparr>prev_high_sum := Some 0, last_adjustment_values := [- 0.5, - 0.5, - 0.5, 3]\<rparr>)"
proof -
  let ?st2 = "osc_state\<lparr>prev_high_sum := Some 0, last_adjustment_values := [- 0.5, - 0.5, - 0.5, 3]\<rparr>"
  have len: "length (last_mean_values ?st2) \<ge> 3" "length (last_adjustment_values ?st2) \<ge> 3"
    by (simp_all add: osc_state_def)
  have osc: "(from_end (last_adjustment_values ?st2) 1 > 0 \<and>
              from_end (last_adjustment_values ?st2) 2 < 0) \<or>
             (from_end (last_adjustment_values ?st2) 1 < 0 \<and>
              from_end (last_adjustment_values ?st2) 2 > 0) \<or>
             (\<bar>from_end (last_mean_values ?st2) 1 - from_end (last_mean_values ?st2) 2\<bar> > 30 \<and>
              \<bar>from_end (last_mean_values ?st2) 2 - from_end (last_mean_values ?st2) 3\<bar> > 30)"
    by (simp add: from_end_def osc_state_def)
  from oscillation_shrink[OF dark_limited len osc] show ?thesis by simp
qed

subsection \<open>Stability damping\<close>

lemma update_stability_fields [simp]:
  "current_value (update_stability st hs) = current_value st"
  "last_mean_values (update_stability st hs) = last_mean_values st"
  "last_adjustment_values (update_stability st hs) = last_adjustment_values st"
  "prev_high_sum (update_stability st hs) = Some hs"
  by (simp_all add: update_stability_def Let_def split: option.splits)

lemma update_stability_count:
  "stable_count (update_stability st hs) =
     (case prev_high_sum st of None \<Rightarrow> stable_count st
      | Some p \<Rightarrow> if \<bar>hs - p\<bar> < 0.1 then stable_count st + 1 else 0)"
  by (simp add: update_stability_def Let_def split: option.splits)

lemma histogram_calc:
  assumes "last_mean_values st = []"
  shows "calculate_current_adjustment st r ''histogram'' =
     (case histogram_branch st r of
        (a, nm, st1) \<Rightarrow>
          (Inr (asymmetric_limits (global_hysteresis a)),
           st1\<lparr>last_adjustment_values :=
                 push5 (last_adjustment_values st1) (asymmetric_limits (global_hysteresis a))\<rparr>))"
  using assms
  by (simp add: calculate_current_adjustment_def limited_adjustment_def method_branch_def
      histogram_branch_def oscillation_guard_def Let_def)

lemma ladder_mean_120:
  assumes "last_mean_values st = []"
  shows "- 1 \<le> histogram_ladder st ((120 / 255) * 100) hs hb ws \<and>
         histogram_ladder st ((120 / 255) * 100) hs hb ws \<le> 1.5 \<and>
         (histogram_ladder st ((120 / 255) * 100) hs hb ws < - 0.5 \<longrightarrow> current_value st = 21)"
  using assms
  by (simp add: histogram_ladder_def case0_dark_def case2_oversaturated_def Let_def)

lemma settle_eq:
  "asymmetric_limits (global_hysteresis (histogram_hysteresis st x)) =
     (if \<bar>x\<bar> < 0.3 then 0 else if x > 0 then min 3 x else max (- 0.5) x)"
  by (simp add: histogram_hysteresis_def global_hysteresis_def asymmetric_limits_def)

lemma damping_twice_stable:
  assumes "stable_count st = 2"
  shows "stability_damping st b =
     b * (if b > 0
          then (if 19 \<le> current_value st \<and> current_value st \<le> 21 then 0.5 else 0.7)
          else (if 19 \<le> current_value st \<and> current_value st \<le> 21 then 0.4 else 0.6))"
  using assms by (simp add: stability_damping_def Let_def)

lemma damped_is_smaller:
  assumes sc: "stable_count st = 2"
    and b: "- 1 \<le> b" "b \<le> 3" "b < - 0.5 \<longrightarrow> current_value st = 21"
  shows "(asymmetric_limits (global_hysteresis (histogram_hysteresis st0 b)) \<noteq> 0 \<longrightarrow>
           \<bar>asymmetric_limits (global_hysteresis (histogram_hysteresis st (stability_damping st b)))\<bar>
           < \<bar>asymmetric_limits (global_hysteresis (histogram_hysteresis st0 b))\<bar>) \<and>
         (asymmetric_limits (global_hysteresis (histogram_hysteresis st0 b)) = 0 \<longrightarrow>
           asymmetric_limits (global_hysteresis (histogram_hysteresis st (stability_damping st b))) = 0)"
proof -
  consider (pos) "b > 0" | (zero) "b = 0" | (neg) "b < 0" by linarith
  then show ?thesis
  proof cases
    case zero
    then show ?thesis by (simp add: settle_eq damping_twice_stable[OF sc])
  next
    case pos
    with b show ?thesis
      unfolding settle_eq damping_twice_stable[OF sc]
      by (cases "19 \<le> current_value st \<and> current_value st \<le> 21") (simp_all add: min_def)
  next
    case neg
    with b show ?thesis
      unfolding settle_eq damping_twice_stable[OF sc]
      by (cases "19 \<le> current_value st \<and> current_value st \<le> 21") (auto simp: max_def)
  qed
qed

lemma ladder_same:
  "current_value st' = current_value st \<Longrightarrow> last_mean_values st' = last_mean_values st \<Longrightarrow>
   histogram_ladder st' nm hs hb ws = histogram_ladder st nm hs hb ws"
  by (simp add: histogram_ladder_def case0_dark_def case2_oversaturated_def)

lemma hysteresis_same:
  "current_value st' = current_value st \<Longrightarrow>
   histogram_hysteresis st' x = histogram_hysteresis st x"
  by (simp add: histogram_hysteresis_def)

lemma damping_not_yet: "stable_count st < 2 \<Longrightarrow> stability_damping st x = x"
  by (simp add: stability_damping_def)

lemma histogram_branch_parts:
  "histogram_branch st r =
     (let st1 = update_stability st (get (high_intensity_sum r) 0)
      in (histogram_hysteresis st (stability_damping st1
            (histogram_ladder st ((get (weighted_mean r) 0 / 255) * 100)
               (get (high_intensity_sum r) 0) (get (highest_bin_percentage r) 0)
               (get (weighted_saturation_percentage r) 0))),
          (get (weighted_mean r) 0 / 255) * 100, st1))"
  by (simp add: histogram_branch_def Let_def
      ladder_same[of "update_stability st (get (high_intensity_sum r) 0)" st]
      hysteresis_same[of "update_stability st (get (high_intensity_sum r) 0)" st])

lemma histogram_calc_parts:
  assumes "last_mean_values st = []"
  shows "calculate_current_adjustment st r ''histogram'' =
     (let st1 = update_stability st (get (high_intensity_sum r) 0);
          d = asymmetric_limits (global_hysteresis (histogram_hysteresis st (stability_damping st1
                (histogram_ladder st ((get (weighted_mean r) 0 / 255) * 100)
                   (get (high_intensity_sum r) 0) (get (highest_bin_percentage r) 0)
                   (get (weighted_saturation_percentage r) 0)))))
      in (Inr d, st1\<lparr>last_adjustment_values := push5 (last_adjustment_values st1) d\<rparr>))"
  unfolding histogram_calc[OF assms] histogram_branch_parts by (simp add: Let_def)

lemma frame_120_fields:
  "get (weighted_mean frame_120) 0 = 120" "get (high_intensity_sum frame_120) 0 = 5"
  "get (highest_bin_percentage frame_120) 0 = 0"
  "get (weighted_saturation_percentage frame_120) 0 = 0"
  by (simp_all add: frame_120_def empty_report_def get_def)

lemma ladder_frame_120:
  "histogram_ladder st ((120 / 255) * 100) 5 0 0 = 1.5"
  by (simp add: histogram_ladder_def)

lemma frame1:
  "calculate_current_adjustment fresh_engine frame_120 ''histogram'' = (Inr 1.5, after_frames 0 [1.5])"
proof -
  have lm: "last_mean_values fresh_engine = []" by (simp add: fresh_engine_def)
  show ?thesis
    unfolding histogram_calc_parts[OF lm] frame_120_fields ladder_frame_120
    by (simp add: update_stability_def fresh_engine_def stability_damping_def
        histogram_hysteresis_def global_hysteresis_def asymmetric_limits_def push5_def
        after_frames_def Let_def)
qed

lemma frame2:
  "calculate_current_adjustment (after_frames 0 [1.5]) frame_120 ''histogram'' =
     (Inr 1.5, after_frames 1 [1.5, 1.5])"
proof -
  have lm: "last_mean_values (after_frames 0 [1.5]) = []" by (simp add: after_frames_def)
  show ?thesis
    unfolding histogram_calc_parts[OF lm] frame_120_fields ladder_frame_120
    by (simp add: update_stability_def stability_damping_def
        histogram_hysteresis_def global_hysteresis_def asymmetric_limits_def push5_def
        after_frames_def Let_def)
qed

lemma frame3:
  "calculate_current_adjustment (after_frames 1 [1.5, 1.5]) frame_120 ''histogram'' =
     (Inr 0.75, after_frames 2 [1.5, 1.5, 0.75])"
proof -
  have lm: "last_mean_values (after_frames 1 [1.5, 1.5]) = []" by (simp add: after_frames_def)
  show ?thesis
    unfolding histogram_calc_parts[OF lm] frame_120_fields ladder_frame_120
    by (simp add: update_stability_def stability_damping_def
        histogram_hysteresis_def global_hysteresis_def asymmetric_limits_def push5_def
        after_frames_def Let_def)
qed

text \<open>
  Claim C3, as stated, fails. From the fresh controller, two consecutive frames
  \<^const>\<open>frame_120\<close> leave the stable-reading counter at 1, not 2: the first frame has no
  previous reading to compare with and does not count. The damping needs a counter of at
  least 2, so the second frame's adjustment is 1.5, the same as the first frame's.
\<close>

theorem two_frames_counterexample:
  "stable_count (snd (calculate_current_adjustment
      (snd (calculate_current_adjustment fresh_engine frame_120 ''histogram''))
      frame_120 ''histogram'')) = 1 \<and>
   fst (calculate_current_adjustment fresh_engine frame_120 ''histogram'') = Inr 1.5 \<and>
   fst (calculate_current_adjustment
      (snd (calculate_current_adjustment fresh_engine frame_120 ''histogram''))
      frame_120 ''histogram'') = Inr 1.5"
  unfolding frame1 snd_conv fst_conv frame2 by (simp add: after_frames_def)

text \<open>
  Claim C3, amended. Start from the fresh controller and feed three consecutive identical
  histogram reports with mean intensity 120, at any current percentages. The
  stable-reading counter is 0 after the first frame, 1 after the second and 2 after the
  third. The second frame's adjustment equals the one a first-frame computation gives at
  the same current percentage. The third frame's adjustment is strictly smaller in
  magnitude than the one a first-frame computation gives at the same current percentage
  whenever that one is not zero, and is zero when that one is zero.
\<close>

theorem damping_after_three_frames:
  fixes r :: report
  assumes r: "weighted_mean r = Some 120"
    and 1: "calculate_current_adjustment (fresh_engine\<lparr>current_value := c1\<rparr>) r ''histogram'' = (d1, s1)"
    and 2: "calculate_current_adjustment (s1\<lparr>current_value := c2\<rparr>) r ''histogram'' = (d2, s2)"
    and 3: "calculate_current_adjustment (s2\<lparr>current_value := c3\<rparr>) r ''histogram'' = (d3, s3)"
  shows "stable_count s1 = 0 \<and> stable_count s2 = 1 \<and> stable_count s3 = 2 \<and>
         d2 = fst (calculate_current_adjustment (fresh_engine\<lparr>current_value := c2\<rparr>) r ''histogram'') \<and>
         (\<exists>a b. d3 = Inr a \<and>
                fst (calculate_current_adjustment (fresh_engine\<lparr>current_value := c3\<rparr>) r ''histogram'') = Inr b \<and>
                (b \<noteq> 0 \<longrightarrow> \<bar>a\<bar> < \<bar>b\<bar>) \<and> (b = 0 \<longrightarrow> a = 0))"
proof -
  let ?hs = "get (high_intensity_sum r) 0"
  let ?F = "\<lambda>c. fresh_engine\<lparr>current_value := c\<rparr>"
  let ?L = "\<lambda>st. histogram_ladder st ((120 / 255) * 100) ?hs
                  (get (highest_bin_percentage r) 0) (get (weighted_saturation_percentage r) 0)"
  have F: "last_mean_values (?F c) = []" "prev_high_sum (?F c) = None"
          "stable_count (?F c) = 0" "current_value (?F c) = c" for c
    by (simp_all add: fresh_engine_def)
  have wm: "get (weighted_mean r) 0 = 120" using r by (simp add: get_def)
  \<comment> \<open>first frame\<close>
  from 1 have s1: "last_mean_values s1 = []" "prev_high_sum s1 = Some ?hs" "stable_count s1 = 0"
    unfolding histogram_calc_parts[OF F(1)]
    by (auto simp: Let_def update_stability_count F)
  \<comment> \<open>second frame\<close>
  let ?t2 = "s1\<lparr>current_value := c2\<rparr>"
  have t2: "last_mean_values ?t2 = []" "prev_high_sum ?t2 = Some ?hs" "stable_count ?t2 = 0"
           "current_value ?t2 = c2"
    using s1 by simp_all
  have u2: "stable_count (update_stability ?t2 ?hs) = 1"
    by (simp add: update_stability_count t2)
  from 2 have s2: "last_mean_values s2 = []" "prev_high_sum s2 = Some ?hs" "stable_count s2 = 1"
    unfolding histogram_calc_parts[OF t2(1)]
    using u2 by (auto simp: Let_def t2)
  have d2: "d2 = Inr (asymmetric_limits (global_hysteresis (histogram_hysteresis ?t2 (?L ?t2))))"
    using 2 unfolding histogram_calc_parts[OF t2(1)]
    by (auto simp: Let_def wm damping_not_yet u2)
  have f2: "fst (calculate_current_adjustment (?F c2) r ''histogram'') =
            Inr (asymmetric_limits (global_hysteresis (histogram_hysteresis (?F c2) (?L (?F c2)))))"
    unfolding histogram_calc_parts[OF F(1)]
    by (simp add: Let_def wm damping_not_yet update_stability_count F)
  have same2: "?L ?t2 = ?L (?F c2)"
    by (rule ladder_same) (simp_all add: t2 F)
  have d2eq: "d2 = fst (calculate_current_adjustment (?F c2) r ''histogram'')"
    unfolding d2 f2 same2 by (simp add: hysteresis_same[of ?t2 "?F c2"] F)
  \<comment> \<open>third frame\<close>
  let ?t3 = "s2\<lparr>current_value := c3\<rparr>"
  let ?u3 = "update_stability ?t3 ?hs"
  have t3: "last_mean_values ?t3 = []" "prev_high_sum ?t3 = Some ?hs" "stable_count ?t3 = 1"
           "current_value ?t3 = c3"
    using s2 by simp_all
  have u3: "stable_count ?u3 = 2" "current_value ?u3 = c3"
    by (simp_all add: update_stability_count t3)
  from 3 have s3: "stable_count s3 = 2"
    unfolding histogram_calc_parts[OF t3(1)]
    using u3 by (auto simp: Let_def)
  have same3: "?L ?t3 = ?L (?F c3)"
    by (rule ladder_same) (simp_all add: t3 F)
  have d3: "d3 = Inr (asymmetric_limits (global_hysteresis
                  (histogram_hysteresis ?u3 (stability_damping ?u3 (?L (?F c3))))))"
    using 3 unfolding histogram_calc_parts[OF t3(1)]
    by (auto simp: Let_def wm same3[simplified] hysteresis_same[of ?u3 ?t3])
  have f3: "fst (calculate_current_adjustment (?F c3) r ''histogram'') =
            Inr (asymmetric_limits (global_hysteresis (histogram_hysteresis (?F c3) (?L (?F c3)))))"
    unfolding histogram_calc_parts[OF F(1)]
    by (simp add: Let_def wm damping_not_yet update_stability_count F)
  have b: "- 1 \<le> ?L (?F c3)" "?L (?F c3) \<le> 3" "?L (?F c3) < - 0.5 \<longrightarrow> current_value ?u3 = 21"
  proof -
    have "- 1 \<le> ?L (?F c3) \<and> ?L (?F c3) \<le> 1.5 \<and>
          (?L (?F c3) < - 0.5 \<longrightarrow> current_value (?F c3) = 21)"
      by (rule ladder_mean_120) (simp add: F)
    then show "- 1 \<le> ?L (?F c3)" "?L (?F c3) \<le> 3"
      "?L (?F c3) < - 0.5 \<longrightarrow> current_value ?u3 = 21"
      by (simp_all add: u3 F)
  qed
  from damped_is_smaller[OF u3(1) b, of "?F c3"] d3 f3 s1 s2 s3 d2eq
  show ?thesis by blast
qed

theorem damping_after_three_frames_witness:
  "stable_count (after_frames 0 [1.5]) = 0 \<and> stable_count (after_frames 1 [1.5, 1.5]) = 1 \<and>
   stable_count (after_frames 2 [1.5, 1.5, 0.75]) = 2 \<and>
   (\<exists>a b. (Inr 0.75 :: py_error + real) = Inr a \<and>
          fst (calculate_current_adjustment (fresh_engine\<lparr>current_value := 20\<rparr>) frame_120 ''histogram'') = Inr b \<and>
          (b \<noteq> 0 \<longrightarrow> \<bar>a\<bar> < \<bar>b\<bar>) \<and> (b = 0 \<longrightarrow> a = 0))"
proof -
  have r: "weighted_mean frame_120 = Some 120" by (simp add: frame_120_def)
  have e: "fresh_engine\<lparr>current_value := 20\<rparr> = fresh_engine"
          "(after_frames 0 [1.5])\<lparr>current_value := 20\<rparr> = after_frames 0 [1.5]"
          "(after_frames 1 [1.5, 1.5])\<lparr>current_value := 20\<rparr> = after_frames 1 [1.5, 1.5]"
    by (simp_all add: fresh_engine_def after_frames_def)
  have 1: "calculate_current_adjustment (fresh_engine\<lparr>current_value := 20\<rparr>) frame_120 ''histogram''
           = (Inr 1.5, after_frames 0 [1.5])"
    unfolding e by (rule frame1)
  have 2: "calculate_current_adjustment ((after_frames 0 [1.5])\<lparr>current_value := 20\<rparr>) frame_120 ''histogram''
           = (Inr 1.5, after_frames 1 [1.5, 1.5])"
    unfolding e by (rule frame2)
  have 3: "calculate_current_adjustment ((after_frames 1 [1.5, 1.5])\<lparr>current_value := 20\<rparr>) frame_120 ''histogram''
           = (Inr 0.75, after_frames 2 [1.5, 1.5, 0.75])"
    unfolding e by (rule frame3)
  from damping_after_three_frames[OF r 1 2 3] show ?thesis by blast
qed

section \<open>Properties of the histogram-saturation estimator\<close>

subsection \<open>What the histogram holds\<close>

lemma bin_index_eq: "bin_index v = (if v \<le> 255 then Some v else None)"
proof -
  have "v * 256 div 255 = v" if "v < 255"
    using that by (intro div_nat_eqI) simp_all
  then show ?thesis by (auto simp: bin_index_def)
qed

lemma sum_list_update_real:
  fixes xs :: "real list"
  shows "k < length xs \<Longrightarrow> sum_list (xs[k := x]) = sum_list xs + x - xs ! k"
  by (induction xs arbitrary: k) (auto split: nat.splits)

lemma sum_list_drop_update:
  fixes h :: "real list"
  assumes "b < length h"
  shows "sum_list (drop t (h[b := h ! b + w])) = sum_list (drop t h) + (if t \<le> b then w else 0)"
proof (cases "t \<le> b")
  case True
  then have 1: "drop t (h[b := h ! b + w]) = (drop t h)[b - t := h ! b + w]"
    by (simp add: drop_update_swap)
  have 2: "b - t < length (drop t h)" using assms True by simp
  have 3: "drop t h ! (b - t) = h ! b" using assms True by simp
  have "sum_list ((drop t h)[b - t := h ! b + w]) =
        sum_list (drop t h) + (h ! b + w) - drop t h ! (b - t)"
    using 2 by (rule sum_list_update_real)
  with 1 3 True show ?thesis by simp
next
  case False
  then show ?thesis by (simp add: drop_update_cancel)
qed

lemma foldl_hist_length:
  "length (foldl (\<lambda>h (v, w). case bin_index v of None \<Rightarrow> h | Some b \<Rightarrow> h[b := h ! b + w]) h zs)
   = length h"
  by (induction zs arbitrary: h) (auto split: option.splits)

lemma foldl_hist_drop:
  fixes h :: "real list"
  assumes "length h = 256"
  shows "sum_list (drop t (foldl (\<lambda>h (v, w). case bin_index v of None \<Rightarrow> h
                                      | Some b \<Rightarrow> h[b := h ! b + w]) h zs))
         = sum_list (drop t h) +
           sum_list (map snd (filter (\<lambda>(v, w). v \<le> 255 \<and> t \<le> v) zs))"
  using assms
proof (induction zs arbitrary: h)
  case Nil
  then show ?case by simp
next
  case (Cons z zs)
  obtain v w where z: "z = (v, w)" by (cases z)
  show ?case
  proof (cases "v \<le> 255")
    case True
    then have b: "bin_index v = Some v" by (simp add: bin_index_eq)
    have u: "sum_list (drop t (h[v := h ! v + w])) = sum_list (drop t h) + (if t \<le> v then w else 0)"
      using Cons.prems True by (intro sum_list_drop_update) simp
    have "length (h[v := h ! v + w]) = 256" using Cons.prems by simp
    from Cons.IH[OF this] u True z b show ?thesis by (simp add: algebra_simps)
  next
    case False
    then have b: "bin_index v = None" by (simp add: bin_index_eq)
    from Cons.IH[OF Cons.prems] False z b show ?thesis by simp
  qed
qed

lemma np_histogram_length: "length (np_histogram vals ws) = 256"
  by (simp add: np_histogram_def foldl_hist_length)

lemma np_histogram_drop:
  "sum_list (drop t (np_histogram vals ws)) =
     sum_list (map snd (filter (\<lambda>(v, w). v \<le> 255 \<and> t \<le> v) (zip vals ws)))"
  unfolding np_histogram_def
  by (subst foldl_hist_drop) (simp_all add: sum_list_replicate)

lemma np_histogram_last:
  "last (np_histogram vals ws) = sum_list (map snd (filter (\<lambda>(v, w). v = 255) (zip vals ws)))"
proof -
  let ?h = "np_histogram vals ws"
  have len: "length ?h = 256" by (rule np_histogram_length)
  then have ne: "?h \<noteq> []" by auto
  have "?h ! 255 # drop (Suc 255) ?h = drop 255 ?h"
    using len by (intro Cons_nth_drop_Suc) simp
  then have "drop 255 ?h = [?h ! 255]" using len by simp
  moreover have "last ?h = ?h ! 255" using len ne by (simp add: last_conv_nth)
  ultimately have "last ?h = sum_list (drop 255 ?h)" by simp
  also have "\<dots> = sum_list (map snd (filter (\<lambda>(v, w). v \<le> 255 \<and> 255 \<le> v) (zip vals ws)))"
    by (rule np_histogram_drop)
  also have "(\<lambda>(v::nat, w::real). v \<le> 255 \<and> 255 \<le> v) = (\<lambda>(v, w). v = 255)"
    by (auto simp: fun_eq_iff)
  finally show ?thesis .
qed

lemma sum_list_percentage:
  fixes xs :: "real list"
  shows "sum_list (map (\<lambda>c. (c / t) * 100) xs) = (sum_list xs / t) * 100"
  by (induction xs) (simp_all add: add_divide_distrib distrib_right)

lemma py_int_nonneg: "0 \<le> x \<Longrightarrow> 0 \<le> py_int x"
  by (simp add: py_int_def)

lemma zip_to_8bit:
  "map snd (filter (\<lambda>(v, x). P v) (zip (map f vs) ws)) =
   map snd (filter (\<lambda>(v, x). P (f v)) (zip vs ws))"
  by (induction vs ws rule: list_induct2') auto

lemma shape_of_length: "shape_of a = shape_of b \<Longrightarrow> length (concat a) = length (concat b)"
  by (simp add: shape_of_def length_concat)

lemma histogram_verdict_of_report:
  assumes "0 \<le> hit"
  shows "(let hist = np_histogram (map (to_8bit d) vals) ws;
              hp = map (\<lambda>c. (c / sum_list ws) * 100) hist
          in (last hp > cbt \<or> sum_list (slice_from hp (py_int (255 * hit))) > 10)) =
         ((sum_list (map snd (filter (\<lambda>(v, x). to_8bit d v = 255) (zip vals ws))) / sum_list ws) * 100 > cbt \<or>
          (sum_list (map snd (filter (\<lambda>(v, x). to_8bit d v \<le> 255 \<and> int (to_8bit d v) \<ge> py_int (255 * hit))
                                     (zip vals ws))) / sum_list ws) * 100 > 10)"
proof -
  let ?h = "np_histogram (map (to_8bit d) vals) ws"
  let ?k = "py_int (255 * hit)"
  have k: "0 \<le> ?k" using assms by (intro py_int_nonneg) simp
  have ne: "?h \<noteq> []" using np_histogram_length[of "map (to_8bit d) vals" ws] by auto
  have top: "last (map (\<lambda>c. (c / sum_list ws) * 100) ?h) =
             (sum_list (map snd (filter (\<lambda>(v, x). to_8bit d v = 255) (zip vals ws))) / sum_list ws) * 100"
    using ne by (simp add: last_map np_histogram_last zip_to_8bit[where P = "\<lambda>v. v = 255"])
  have "sum_list (slice_from (map (\<lambda>c. (c / sum_list ws) * 100) ?h) ?k) =
        (sum_list (drop (nat ?k) ?h) / sum_list ws) * 100"
  proof -
    have "slice_from (map (\<lambda>c. (c / sum_list ws) * 100) ?h) ?k =
          map (\<lambda>c. (c / sum_list ws) * 100) (drop (nat ?k) ?h)"
      using k by (simp only: slice_from_def drop_map if_True)
    then show ?thesis by (simp only: sum_list_percentage)
  qed
  also have "sum_list (drop (nat ?k) ?h) =
             sum_list (map snd (filter (\<lambda>(v, x). to_8bit d v \<le> 255 \<and> nat ?k \<le> to_8bit d v) (zip vals ws)))"
    by (simp add: np_histogram_drop zip_to_8bit[where P = "\<lambda>v. v \<le> 255 \<and> nat ?k \<le> v"])
  also have "(\<lambda>(v::nat, x::real). to_8bit d v \<le> 255 \<and> nat ?k \<le> to_8bit d v) =
             (\<lambda>(v, x). to_8bit d v \<le> 255 \<and> int (to_8bit d v) \<ge> ?k)"
    using k by (auto simp: fun_eq_iff)
  finally show ?thesis using top by (simp add: Let_def)
qed



subsection \<open>A degenerate weight field\<close>

lemma sum_list_all_zero:
  fixes xs :: "real list"
  shows "\<forall>x\<in>set xs. x = 0 \<Longrightarrow> sum_list xs = 0"
  by (induction xs) auto

text \<open>
  Claim C5, as stated, fails. On a one-pixel image with the weight field \<open>[[0]]\<close> the
  estimator does not fail with a DataError: the normalisation of the histogram divides by
  the zero total weight without an exception, and the weighted average that follows raises
  ZeroDivisionError.
\<close>

theorem zero_weights_counterexample:
  "analyze_saturation_by_histogram black_pixel 0.9 0.1 None (Some zero_weights)
     = Inl ZeroDivisionError \<and>
   analyze_saturation_by_histogram black_pixel 0.9 0.1 None (Some zero_weights)
     \<noteq> Inl DataError"
  by (simp add: analyze_saturation_by_histogram_def black_pixel_def zero_weights_def
      np_average_def Let_def)

text \<open>
  Claim C5, amended. For every image and every weight field of the image's shape whose
  weights are all zero, the histogram-saturation estimator fails with the
  ZeroDivisionError of the weighted average; the histogram step of the control loop
  catches it, logs it as an error, leaves the controller state and the list of adjustments
  as they were, and returns, so the loop goes on.
\<close>

theorem zero_weights_raise_and_loop_continues:
  assumes zero: "\<forall>x\<in>set (concat w). x = 0"
    and shape: "shape_of (img_rows img) = shape_of w"
  shows "analyze_saturation_by_histogram img high_intensity_threshold critical_bin_threshold
           weight_sigma (Some w) = Inl ZeroDivisionError \<and>
         run_histogram st adjustments img w = (st, adjustments, [ZeroDivisionError])"
proof -
  have s: "sum_list (concat w) = 0" using zero by (rule sum_list_all_zero)
  have l: "length (concat (img_rows img)) = length (concat w)"
    using shape by (rule shape_of_length)
  have "analyze_saturation_by_histogram img h c g (Some w) = Inl ZeroDivisionError" for h c g
    using s l by (simp add: analyze_saturation_by_histogram_def np_average_def Let_def)
  then show ?thesis by (simp add: run_histogram_def)
qed

theorem zero_weights_raise_and_loop_continues_witness:
  "analyze_saturation_by_histogram black_pixel 0.9 0.1 None (Some zero_weights)
     = Inl ZeroDivisionError \<and>
   run_histogram fresh_engine [] black_pixel zero_weights = (fresh_engine, [], [ZeroDivisionError])"
proof -
  have zero: "\<forall>x\<in>set (concat zero_weights). x = 0" by (simp add: zero_weights_def)
  have shape: "shape_of (img_rows black_pixel) = shape_of zero_weights"
    by (simp add: shape_of_def black_pixel_def zero_weights_def)
  from zero_weights_raise_and_loop_continues[OF zero shape] show ?thesis by blast
qed

section \<open>Properties of the pixel-count-saturation estimator\<close>

lemma all_saturated_mask:
  "\<forall>p\<in>set vs. p = (255::nat) \<Longrightarrow> map (\<lambda>v. int v > 249) vs = map (\<lambda>v. True) vs"
  by (induction vs) auto

lemma all_saturated_weight:
  fixes ws :: "real list"
  shows "length vs = length ws \<Longrightarrow>
    sum_list (map2 (\<lambda>b w. if b then w else 0) (map (\<lambda>v. True) vs) ws) = sum_list ws"
proof (induction vs arbitrary: ws)
  case Nil
  then show ?case by simp
next
  case (Cons v vs)
  then show ?case by (cases ws) auto
qed

lemma py_int_threshold: "py_int (real (255::nat) * 0.98) = 249"
  by (simp add: py_int_def)

lemma pixel_count_report_white:
  assumes white: "\<forall>p\<in>set vs. p = 255"
    and ne: "vs \<noteq> []"
    and l: "length vs = length ws"
    and tot: "sum_list ws > 0"
  shows "pixel_count_report vs ws 249 100 =
           empty_report
             \<lparr>saturated_pixels := Some (real (length vs)),
              saturated_percentage := Some 100,
              weighted_saturation_percentage := Some 100,
              is_saturated := Some True\<rparr>"
proof -
  have mask: "map (\<lambda>v. int v > 249) vs = map (\<lambda>v. True) vs"
    using white by (rule all_saturated_mask)
  have cnt: "length (filter (\<lambda>b. b) (map (\<lambda>v. True) vs)) = length vs"
    by (simp add: filter_map comp_def)
  have wsum: "sum_list (map2 (\<lambda>b w. if b then w else 0) (map (\<lambda>v. True) vs) ws) = sum_list ws"
    using l by (rule all_saturated_weight)
  have n: "real (length vs) \<noteq> 0" using ne by simp
  show ?thesis
    unfolding pixel_count_report_def Let_def mask cnt wsum
    using n tot by simp
qed

lemma pixel_count_white:
  assumes dt: "img_dtype img = UInt8"
    and white: "\<forall>p\<in>set (concat (img_rows img)). p = 255"
    and ne: "concat (img_rows img) \<noteq> []"
    and shape: "shape_of (img_rows img) = shape_of w"
    and tot: "sum_list (concat w) > 0"
  shows "analyze_saturation_by_pixel_count img 0.98 100 weight_sigma (Some w) =
           Inr (empty_report
                 \<lparr>saturated_pixels := Some (real (length (concat (img_rows img)))),
                  saturated_percentage := Some 100,
                  weighted_saturation_percentage := Some 100,
                  is_saturated := Some True\<rparr>)"
proof -
  have thr: "py_int (real (max_possible_value (img_dtype img)) * 0.98) = 249"
    using py_int_threshold by (simp add: dt max_possible_value_def)
  have "analyze_saturation_by_pixel_count img 0.98 100 weight_sigma (Some w) =
        Inr (pixel_count_report (concat (img_rows img)) (concat w)
               (py_int (real (max_possible_value (img_dtype img)) * 0.98)) 100)"
    using shape by (simp add: analyze_saturation_by_pixel_count_def)
  then show ?thesis
    unfolding thr
    using pixel_count_report_white[OF white ne shape_of_length[OF shape] tot] by simp
qed

text \<open>
  Claim C6. For a non-empty 8-bit image with every sample 255 and a weight field of the
  image's shape with positive total weight, the pixel-count estimator reports
  \<open>is_saturated = True\<close> and \<open>saturated_percentage = 100\<close>. On that report the decision
  engine returns, from every controller state, a negative adjustment that the limit keeps
  at -0.5 or above: it is -0.5, or -0.1 when the oscillation guard has shrunk it; from
  the fresh controller it is -0.5.
\<close>

theorem saturated_image_decreases:
  assumes dt: "img_dtype img = UInt8"
    and white: "\<forall>p\<in>set (concat (img_rows img)). p = 255"
    and ne: "concat (img_rows img) \<noteq> []"
    and shape: "shape_of (img_rows img) = shape_of w"
    and tot: "sum_list (concat w) > 0"
  shows "\<exists>rep. analyze_saturation_by_pixel_count img 0.98 100 weight_sigma (Some w) = Inr rep \<and>
           is_saturated rep = Some True \<and> saturated_percentage rep = Some 100 \<and>
           (\<exists>adjustment st2. calculate_current_adjustment st rep ''pixel_count'' = (Inr adjustment, st2) \<and>
              adjustment < 0 \<and> - 0.5 \<le> adjustment \<and>
              (adjustment = - 0.5 \<or> adjustment = - 0.1 \<and> is_oscillating st2)) \<and>
           fst (calculate_current_adjustment fresh_engine rep ''pixel_count'') = Inr (- 0.5)"
proof -
  let ?rep = "empty_report
                 \<lparr>saturated_pixels := Some (real (length (concat (img_rows img)))),
                  saturated_percentage := Some 100,
                  weighted_saturation_percentage := Some 100,
                  is_saturated := Some True\<rparr>"
  have a: "analyze_saturation_by_pixel_count img 0.98 100 weight_sigma (Some w) = Inr ?rep"
    using assms by (rule pixel_count_white)
  have f: "is_saturated ?rep = Some True" "weighted_saturation_percentage ?rep = Some 100"
          "saturated_percentage ?rep = Some 100"
    by simp_all
  have e: "\<exists>adjustment st2. calculate_current_adjustment st ?rep ''pixel_count'' = (Inr adjustment, st2) \<and>
              adjustment < 0 \<and> - 0.5 \<le> adjustment \<and>
              (adjustment = - 0.5 \<or> adjustment = - 0.1 \<and> is_oscillating st2)"
    unfolding engine_on_saturated[OF f(1,2)] by (simp add: Let_def)
  have fr: "fst (calculate_current_adjustment fresh_engine ?rep ''pixel_count'') = Inr (- 0.5)"
    unfolding engine_on_saturated[OF f(1,2)] by (simp add: Let_def fresh_engine_def push5_def)
  from a f e fr show ?thesis by blast
qed

theorem saturated_image_decreases_witness:
  "\<exists>rep. analyze_saturation_by_pixel_count white_image 0.98 100 None (Some unit_weights) = Inr rep \<and>
      is_saturated rep = Some True \<and> saturated_percentage rep = Some 100 \<and>
      fst (calculate_current_adjustment fresh_engine rep ''pixel_count'') = Inr (- 0.5)"
proof -
  have dt: "img_dtype white_image = UInt8" by (simp add: white_image_def)
  have white: "\<forall>p\<in>set (concat (img_rows white_image)). p = 255" by (simp add: white_image_def)
  have ne: "concat (img_rows white_image) \<noteq> []" by (simp add: white_image_def)
  have shape: "shape_of (img_rows white_image) = shape_of unit_weights"
    by (simp add: shape_of_def white_image_def unit_weights_def)
  have tot: "sum_list (concat unit_weights) > 0" by (simp add: unit_weights_def)
  from saturated_image_decreases[OF dt white ne shape tot, of None fresh_engine]
  show ?thesis by blast
qed

section \<open>Properties of the weight fields\<close>

lemma squared_dist_nth:
  "y < h \<Longrightarrow> x < w \<Longrightarrow>
   squared_dist (h, w) c ! y ! x = (real y - fst c)\<^sup>2 + (real x - snd c)\<^sup>2"
  by (simp add: squared_dist_def)

lemma squared_dist_length:
  "length (squared_dist (h, w) c) = h"
  "y < h \<Longrightarrow> length (squared_dist (h, w) c ! y) = w"
  by (simp_all add: squared_dist_def)

lemma flat_top_cases:
  "create_radial_weight_mask shape center sigma flat_top_radius =
     map (map (\<lambda>d2. case flat_top_radius of
                        None \<Rightarrow> exp (- d2 / (2 * (case sigma of None \<Rightarrow> real (min (fst shape) (snd shape) div 2) | Some s \<Rightarrow> s)\<^sup>2))
                      | Some r \<Rightarrow>
                          if r > 0 then (if d2 \<le> r\<^sup>2 then 1
                             else exp (- (d2 - r\<^sup>2) / (2 * (case sigma of None \<Rightarrow> real (min (fst shape) (snd shape) div 2) | Some s \<Rightarrow> s)\<^sup>2)))
                          else exp (- d2 / (2 * (case sigma of None \<Rightarrow> real (min (fst shape) (snd shape) div 2) | Some s \<Rightarrow> s)\<^sup>2))))
         (squared_dist shape (case center of None \<Rightarrow> default_center shape | Some c \<Rightarrow> c))"
  by (simp add: create_radial_weight_mask_def Let_def split: option.splits)

lemma upt_2: "[0..<2] = [0, 1]" and upt_3: "[0..<3] = [0, 1, 2]" and upt_1: "[0..<1] = [0]"
  by (simp_all add: upt_rec)

subsection \<open>Normalisation by the maximum\<close>

lemma flat_top_off_grid_eval:
  "create_radial_weight_mask (2, 2) (Some (1/2, 1/2)) (Some 1) None =
     [[exp (- (1/4)), exp (- (1/4))], [exp (- (1/4)), exp (- (1/4))]]"
  by (simp add: create_radial_weight_mask_def squared_dist_def upt_2 power2_eq_square)

lemma analyzer_off_grid_eval:
  "create_radial_weight_mask_analyzer (2, 2) (Some (1/2, 1/2)) (Some 1) = Inr [[1, 1], [1, 1]]"
  by (simp add: create_radial_weight_mask_analyzer_def squared_dist_def upt_2 np_max_def
        power2_eq_square)


subsection \<open>The profile of the flat-top builder\<close>

lemma gaussian_forms:
  fixes d2 s :: real
  assumes "0 \<le> d2"
  shows "exp (- d2 / (2 * s\<^sup>2)) = exp (- 0.5 * (sqrt d2 / s)\<^sup>2)"
proof -
  have "(sqrt d2 / s)\<^sup>2 = d2 / s\<^sup>2" using assms by (simp add: power_divide)
  then show ?thesis by simp
qed

lemma distance_squared:
  "(distance (y, x) c)\<^sup>2 = (real y - fst c)\<^sup>2 + (real x - snd c)\<^sup>2"
  by (simp add: distance_def)

lemma distance_within:
  assumes "0 < r"
  shows "((real y - fst c)\<^sup>2 + (real x - snd c)\<^sup>2 \<le> r\<^sup>2) = (distance (y, x) c \<le> r)"
proof -
  let ?d2 = "(real y - fst c)\<^sup>2 + (real x - snd c)\<^sup>2"
  have "(?d2 \<le> r\<^sup>2) = (sqrt ?d2 \<le> sqrt (r\<^sup>2))" by (simp only: real_sqrt_le_iff)
  also have "sqrt (r\<^sup>2) = r" using assms by simp
  finally show ?thesis by (simp only: distance_def fst_conv snd_conv)
qed

lemma ring_eval:
  "create_radial_weight_mask (1, 3) (Some (0, 0)) (Some 1) (Some 1) = [[1, 1, exp (- (3/2))]]"
  by (simp add: create_radial_weight_mask_def squared_dist_def upt_1 upt_3)

text \<open>
  Claim C8, as stated, fails beyond the flat top. With center \<open>(0, 0)\<close>, sigma 1 and flat-top
  radius 1 the pixel at distance 2 has weight \<open>exp (- 3/2)\<close>: the builder subtracts the
  squared radius from the squared distance. The claim's formula gives \<open>exp (- 1/2)\<close>.
\<close>

theorem flat_top_profile_counterexample:
  "\<not> distance (0, 2) (0, 0) \<le> 1 \<and>
   create_radial_weight_mask (1, 3) (Some (0, 0)) (Some 1) (Some 1) ! 0 ! 2 = exp (- (3/2)) \<and>
   exp (- 0.5 * ((distance (0, 2) (0, 0) - 1) / 1)\<^sup>2) = exp (- (1/2)) \<and>
   create_radial_weight_mask (1, 3) (Some (0, 0)) (Some 1) (Some 1) ! 0 ! 2 \<noteq>
     exp (- 0.5 * ((distance (0, 2) (0, 0) - 1) / 1)\<^sup>2)"
  unfolding ring_eval by (simp add: distance_def)

text \<open>
  Claim C8, amended. For every pixel \<open>p\<close> of a weight field built with a given center and
  a sigma other than zero: with a flat-top radius \<open>r > 0\<close>, the weight is 1 when the distance from \<open>p\<close> to the
  center is at most \<open>r\<close>, and \<open>exp (- (distance\<^sup>2 - r\<^sup>2) / (2 sigma\<^sup>2))\<close> otherwise; with no
  flat-top radius, or one that is not positive, the weight is
  \<open>exp (- 0.5 (distance / sigma)\<^sup>2)\<close>.
\<close>

theorem flat_top_profile:
  assumes "y < h" "x < w" "sigma \<noteq> 0"
  shows "create_radial_weight_mask (h, w) (Some c) (Some sigma) flat_top_radius ! y ! x =
     (case flat_top_radius of
        Some r \<Rightarrow> if r > 0
                  then (if distance (y, x) c \<le> r then 1
                        else exp (- ((distance (y, x) c)\<^sup>2 - r\<^sup>2) / (2 * sigma\<^sup>2)))
                  else exp (- 0.5 * (distance (y, x) c / sigma)\<^sup>2)
      | None \<Rightarrow> exp (- 0.5 * (distance (y, x) c / sigma)\<^sup>2))"
proof -
  let ?d2 = "(real y - fst c)\<^sup>2 + (real x - snd c)\<^sup>2"
  have nn: "0 \<le> ?d2" by simp
  have plain: "exp (- ?d2 / (2 * sigma\<^sup>2)) = exp (- 0.5 * (distance (y, x) c / sigma)\<^sup>2)"
    unfolding gaussian_forms[OF nn] by (simp add: distance_def)
  have nth: "create_radial_weight_mask (h, w) (Some c) (Some sigma) flat_top_radius ! y ! x =
        (case flat_top_radius of
           None \<Rightarrow> exp (- ?d2 / (2 * sigma\<^sup>2))
         | Some r \<Rightarrow> if r > 0 then (if ?d2 \<le> r\<^sup>2 then 1 else exp (- (?d2 - r\<^sup>2) / (2 * sigma\<^sup>2)))
                    else exp (- ?d2 / (2 * sigma\<^sup>2)))"
    using assms(1,2) unfolding flat_top_cases
    by (simp add: squared_dist_length squared_dist_nth split: option.splits)
  show ?thesis
  proof (cases flat_top_radius)
    case None
    with nth plain show ?thesis by simp
  next
    case (Some r)
    show ?thesis
    proof (cases "r > 0")
      case True
      with nth Some distance_within[OF True, of y c x] show ?thesis
        by (simp add: distance_squared)
    next
      case False
      with nth Some plain show ?thesis by simp
    qed
  qed
qed

theorem flat_top_profile_witness:
  "(0::nat) < 1 \<and> (2::nat) < 3 \<and> (1::real) \<noteq> 0 \<and>
   create_radial_weight_mask (1, 3) (Some (0, 0)) (Some 1) (Some 1) ! 0 ! 2 = exp (- (3/2))"
proof -
  have a: "(0::nat) < 1" "(2::nat) < 3" "(1::real) \<noteq> 0" by simp_all
  from flat_top_profile[OF a, of "(0, 0)" "Some 1"] a show ?thesis
    by (simp add: distance_def)
qed

text \<open>
  Claim C9. For every shape, center and sigma, the weight field built with
  \<^verbatim>\<open>flat_top_radius = 0\<close> is the field built with no flat-top radius, and it is, pixel by
  pixel, the plain Gaussian \<open>exp (- 0.5 (distance / sigma)\<^sup>2)\<close>.
\<close>

theorem flat_top_zero_is_plain_gaussian:
  "create_radial_weight_mask shape center sigma (Some 0) =
     create_radial_weight_mask shape center sigma None \<and>
   create_radial_weight_mask shape (Some c) (Some s) (Some 0) = plain_gaussian shape c s"
proof -
  have "map (map (\<lambda>d2. exp (- d2 / (2 * s\<^sup>2)))) (squared_dist shape c) = plain_gaussian shape c s"
    unfolding squared_dist_def plain_gaussian_def map_map comp_def
    by (intro map_cong refl gaussian_forms) simp
  then have "create_radial_weight_mask shape (Some c) (Some s) (Some 0) = plain_gaussian shape c s"
    by (simp add: create_radial_weight_mask_def Let_def)
  then show ?thesis by (simp add: create_radial_weight_mask_def)
qed

section \<open>Properties of the contrast estimator\<close>

lemma reflect_index_less:
  assumes "0 < n"
  shows "reflect_index n i < n"
proof (cases "n \<le> 1")
  case True
  with assms show ?thesis by (simp add: reflect_index_def)
next
  case False
  define m where "m = 2 * (int n - 1)"
  have m: "0 < m" using False by (simp add: m_def)
  have j: "0 \<le> i mod m" "i mod m < m" using m by simp_all
  have ri: "reflect_index n i = (if i mod m < int n then nat (i mod m) else nat (m - i mod m))"
    using False by (simp add: reflect_index_def Let_def m_def)
  show ?thesis
  proof (cases "i mod m < int n")
    case True
    with j show ?thesis unfolding ri by simp
  next
    case F2: False
    then have "m - i mod m < int n" using j by (simp add: m_def)
    moreover have "0 < m - i mod m" using j by simp
    ultimately show ?thesis using F2 unfolding ri by simp
  qed
qed

lemma pad_reflect_set:
  assumes "xs \<noteq> []"
  shows "set (pad_reflect p xs) \<subseteq> set xs"
proof -
  have "0 < length xs" using assms by simp
  then have "xs ! reflect_index (length xs) i \<in> set xs" for i
    by (intro nth_mem reflect_index_less)
  then show ?thesis by (auto simp: pad_reflect_def)
qed

lemma np_pad_reflect_elements:
  assumes "rows \<noteq> []" "\<forall>r\<in>set rows. r \<noteq> []"
  shows "\<Union> (set ` set (np_pad_reflect p rows)) \<subseteq> \<Union> (set ` set rows)"
proof -
  have ne: "map (pad_reflect p) rows \<noteq> []" using assms by simp
  have "set (np_pad_reflect p rows) \<subseteq> set (map (pad_reflect p) rows)"
    unfolding np_pad_reflect_def using ne by (rule pad_reflect_set)
  moreover have "set r' \<subseteq> \<Union> (set ` set rows)" if "r' \<in> set (map (pad_reflect p) rows)" for r'
  proof -
    from that obtain r where r: "r \<in> set rows" "r' = pad_reflect p r" by auto
    then have "set r' \<subseteq> set r" using assms pad_reflect_set by blast
    with r show ?thesis by blast
  qed
  ultimately show ?thesis by blast
qed

lemma window_at_elements:
  "set (window_at padded k y x) \<subseteq> \<Union> (set ` set padded)"
proof
  fix v assume "v \<in> set (window_at padded k y x)"
  then obtain r where r: "r \<in> set (take k (drop y padded))" and v: "v \<in> set (take k (drop x r))"
    by (auto simp: window_at_def)
  from r have "r \<in> set padded" by (meson in_set_takeD in_set_dropD)
  moreover from v have "v \<in> set r" by (meson in_set_takeD in_set_dropD)
  ultimately show "v \<in> \<Union> (set ` set padded)" by blast
qed

lemma local_contrast_zero_mean: "np_mean win \<le> 0 \<Longrightarrow> local_contrast win = 0"
  by (simp add: local_contrast_def)

lemma sum_list_zeros:
  fixes xs :: "real list"
  shows "\<forall>x\<in>set xs. x = 0 \<Longrightarrow> sum_list xs = 0"
  by (induction xs) auto

lemma np_mean_zeros: "\<forall>x\<in>set xs. x = 0 \<Longrightarrow> np_mean xs = 0"
  by (simp add: np_mean_def sum_list_zeros)

lemma np_median_zeros:
  assumes "\<forall>x\<in>set xs. x = 0" "xs \<noteq> []"
  shows "np_median xs = 0"
proof -
  let ?s = "sort xs"
  have z: "?s ! i = 0" if "i < length ?s" for i
  proof -
    have "?s ! i \<in> set ?s" using that by (rule nth_mem)
    then show ?thesis using assms(1) by simp
  qed
  have n: "0 < length ?s" using assms(2) by simp
  show ?thesis
  proof (cases "odd (length ?s)")
    case True
    have "length ?s div 2 < length ?s" using n by simp
    with True z show ?thesis by (simp add: np_median_def Let_def)
  next
    case False
    then have "length ?s \<noteq> 1" by auto
    then have "2 \<le> length ?s" using n by linarith
    then have "length ?s div 2 - 1 < length ?s" "length ?s div 2 < length ?s" by simp_all
    with False z show ?thesis by (simp add: np_median_def Let_def)
  qed
qed

lemma np_average_ok:
  "length a = length w \<Longrightarrow> sum_list w \<noteq> 0 \<Longrightarrow>
   np_average a w = Inr (sum_list (map2 (*) a w) / sum_list w)"
  by (simp add: np_average_def)

lemma analyze_contrast_ok:
  assumes 1: "np_average (map real (concat (img_rows img))) (concat w) = Inr wm"
    and 2: "np_average (map (\<lambda>v. (v - wm)\<^sup>2) (map real (concat (img_rows img)))) (concat w) = Inr var"
    and 3: "shape_of (img_rows img) = shape_of w"
    and 4: "np_average (concat (contrast_map_of (img_rows img) k)) (concat w) = Inr wmc"
  shows "analyze_contrast img k sigma (Some w) =
           Inr (empty_report
                 \<lparr>global_contrast := Some (if wm > 0 then sqrt var / wm else 0),
                  mean_contrast := Some (np_mean (concat (contrast_map_of (img_rows img) k))),
                  median_contrast := Some (np_median (concat (contrast_map_of (img_rows img) k))),
                  weighted_mean_contrast := Some wmc\<rparr>,
                contrast_map_of (img_rows img) k)"
proof -
  have s: "(shape_of (img_rows img) \<noteq> shape_of w) = False" using 3 by simp
  show ?thesis
    unfolding analyze_contrast_def Let_def option.case sum.case 1 2 4 s if_False ..
qed

lemma rectangular_size:
  assumes "rectangular rows"
  shows "length (concat rows) = fst (height_width rows) * snd (height_width rows)"
proof -
  let ?wd = "snd (height_width rows)"
  have "\<forall>r\<in>set rows. length r = ?wd"
    using assms by (simp add: rectangular_def height_width_def)
  moreover have "\<forall>r\<in>set xs. length r = n \<Longrightarrow> map length xs = replicate (length xs) n"
    for xs :: "'a list list" and n
    by (induction xs) auto
  ultimately have "map length rows = replicate (length rows) ?wd"
    by blast
  then have "sum_list (map length rows) = length rows * ?wd"
    by (simp add: sum_list_replicate)
  then show ?thesis by (simp add: length_concat height_width_def)
qed

lemma contrast_map_size:
  "length (concat (contrast_map_of rows k)) = fst (height_width rows) * snd (height_width rows)"
  by (simp add: contrast_map_of_def Let_def length_concat comp_def sum_list_triv)

lemma contrast_map_set:
  "set (concat (contrast_map_of rows k)) =
     {local_contrast (map real (window_at (np_pad_reflect (k div 2) rows) k y x)) | y x.
        y < fst (height_width rows) \<and> x < snd (height_width rows)}"
  by (fastforce simp: contrast_map_of_def Let_def)

lemma contrast_map_nth:
  "y < fst (height_width rows) \<Longrightarrow> x < snd (height_width rows) \<Longrightarrow>
   contrast_map_of rows k ! y ! x =
     local_contrast (map real (window_at (np_pad_reflect (k div 2) rows) k y x))"
  by (simp add: contrast_map_of_def Let_def)

lemma weighted_sum_zeros:
  fixes a :: "real list"
  shows "\<forall>v\<in>set a. v = 0 \<Longrightarrow> sum_list (map2 (*) a ws) = 0"
proof (induction a arbitrary: ws)
  case Nil
  then show ?case by simp
next
  case (Cons v a)
  then show ?case by (cases ws) auto
qed

lemma rectangular_rows_nonempty:
  assumes "rectangular rows" "concat rows \<noteq> []"
  shows "rows \<noteq> [] \<and> (\<forall>r\<in>set rows. r \<noteq> [])"
proof -
  from assms(2) obtain r0 where r0: "r0 \<in> set rows" "r0 \<noteq> []" by auto
  then have ne: "rows \<noteq> []" by auto
  have all: "\<forall>r\<in>set rows. length r = snd (height_width rows)"
    using assms(1) by (simp add: rectangular_def height_width_def)
  with r0 have "0 < snd (height_width rows)" by (metis length_greater_0_conv)
  with all ne show ?thesis by (metis length_greater_0_conv)
qed

lemma zero_image_windows:
  assumes rect: "rectangular rows" and ne: "concat rows \<noteq> []"
    and zero: "\<forall>p\<in>set (concat rows). p = (0::nat)"
  shows "local_contrast (map real (window_at (np_pad_reflect p rows) k y x)) = 0"
proof -
  have "rows \<noteq> []" "\<forall>r\<in>set rows. r \<noteq> []"
    using rectangular_rows_nonempty[OF rect ne] by simp_all
  then have "\<Union> (set ` set (np_pad_reflect p rows)) \<subseteq> \<Union> (set ` set rows)"
    by (rule np_pad_reflect_elements)
  with window_at_elements[of "np_pad_reflect p rows" k y x]
  have "set (window_at (np_pad_reflect p rows) k y x) \<subseteq> set (concat rows)" by auto
  with zero have "\<forall>v\<in>set (map real (window_at (np_pad_reflect p rows) k y x)). v = 0"
    by auto
  then have "np_mean (map real (window_at (np_pad_reflect p rows) k y x)) = 0"
    by (rule np_mean_zeros)
  then show ?thesis by (simp add: local_contrast_zero_mean)
qed

text \<open>
  Claim C10. For every image (its samples are unsigned), every weight field of the
  image's shape with positive total weight and every positive window size, the contrast
  estimator returns a report. When
  the weighted sum of the samples, hence the weighted global mean, is 0, the report has
  \<open>global_contrast = 0\<close>; every window whose local mean is 0 has local contrast 0 in the
  contrast map; and for an all-zero image the global, mean, median and weighted mean
  contrast and every entry of the contrast map are 0.
\<close>

theorem contrast_guards_zero_mean:
  assumes rect: "rectangular (img_rows img)"
    and shape: "shape_of (img_rows img) = shape_of w"
    and tot: "sum_list (concat w) > 0"
    and win: "0 < window_size"
  shows "\<exists>rep cmap. analyze_contrast img window_size weight_sigma (Some w) = Inr (rep, cmap) \<and>
      (sum_list (map2 (*) (map real (concat (img_rows img))) (concat w)) = 0 \<longrightarrow>
         global_contrast rep = Some 0) \<and>
      (\<forall>y < fst (height_width (img_rows img)). \<forall>x < snd (height_width (img_rows img)).
         np_mean (map real (window_at (np_pad_reflect (window_size div 2) (img_rows img))
                              window_size y x)) = 0 \<longrightarrow>
         cmap ! y ! x = 0) \<and>
      ((\<forall>p\<in>set (concat (img_rows img)). p = 0) \<longrightarrow>
         global_contrast rep = Some 0 \<and> mean_contrast rep = Some 0 \<and>
         median_contrast rep = Some 0 \<and> weighted_mean_contrast rep = Some 0 \<and>
         (\<forall>c\<in>set (concat cmap). c = 0))"
proof -
  let ?rows = "img_rows img"
  let ?flat = "map real (concat ?rows)"
  let ?ws = "concat w"
  let ?cmap = "contrast_map_of ?rows window_size"
  let ?wm = "sum_list (map2 (*) ?flat ?ws) / sum_list ?ws"
  let ?var = "sum_list (map2 (*) (map (\<lambda>v. (v - ?wm)\<^sup>2) ?flat) ?ws) / sum_list ?ws"
  let ?wmc = "sum_list (map2 (*) (concat ?cmap) ?ws) / sum_list ?ws"
  let ?rep = "empty_report
                 \<lparr>global_contrast := Some (if ?wm > 0 then sqrt ?var / ?wm else 0),
                  mean_contrast := Some (np_mean (concat ?cmap)),
                  median_contrast := Some (np_median (concat ?cmap)),
                  weighted_mean_contrast := Some ?wmc\<rparr>"
  have nz: "sum_list ?ws \<noteq> 0" using tot by simp
  have len: "length (concat ?rows) = length ?ws" using shape by (rule shape_of_length)
  have "?ws \<noteq> []"
  proof
    assume "?ws = []"
    then have "sum_list ?ws = 0" by (simp only: sum_list.Nil)
    with tot show False by simp
  qed
  then have "length (concat ?rows) \<noteq> 0" unfolding len by simp
  then have ne: "concat ?rows \<noteq> []" unfolding length_0_conv .
  have lenc: "length (concat ?cmap) = length ?ws"
    using len rectangular_size[OF rect] contrast_map_size[of ?rows window_size] by simp
  have 1: "np_average ?flat ?ws = Inr ?wm" using len nz by (intro np_average_ok) simp_all
  have 2: "np_average (map (\<lambda>v. (v - ?wm)\<^sup>2) ?flat) ?ws = Inr ?var"
    using len nz by (intro np_average_ok) simp_all
  have 4: "np_average (concat ?cmap) ?ws = Inr ?wmc" using lenc nz by (intro np_average_ok)
  have res: "analyze_contrast img window_size weight_sigma (Some w) = Inr (?rep, ?cmap)"
    using 1 2 shape 4 by (rule analyze_contrast_ok)
  have g: "global_contrast ?rep = Some (if ?wm > 0 then sqrt ?var / ?wm else 0)"
          "mean_contrast ?rep = Some (np_mean (concat ?cmap))"
          "median_contrast ?rep = Some (np_median (concat ?cmap))"
          "weighted_mean_contrast ?rep = Some ?wmc"
    by simp_all
  have p1: "sum_list (map2 (*) ?flat ?ws) = 0 \<longrightarrow> global_contrast ?rep = Some 0"
    unfolding g by simp
  have p2: "\<forall>y < fst (height_width ?rows). \<forall>x < snd (height_width ?rows).
         np_mean (map real (window_at (np_pad_reflect (window_size div 2) ?rows)
                              window_size y x)) = 0 \<longrightarrow>
         ?cmap ! y ! x = 0"
    by (simp add: contrast_map_nth local_contrast_zero_mean)
  have p3: "global_contrast ?rep = Some 0 \<and> mean_contrast ?rep = Some 0 \<and>
         median_contrast ?rep = Some 0 \<and> weighted_mean_contrast ?rep = Some 0 \<and>
         (\<forall>c\<in>set (concat ?cmap). c = 0)"
    if zero: "\<forall>p\<in>set (concat ?rows). p = 0"
  proof -
    have "\<forall>v\<in>set ?flat. v = 0" using zero by auto
    then have wm0: "sum_list (map2 (*) ?flat ?ws) = 0" by (rule weighted_sum_zeros)
    have cz: "\<forall>c\<in>set (concat ?cmap). c = 0"
      unfolding contrast_map_set using zero_image_windows[OF rect ne zero] by auto
    have "length (concat ?cmap) \<noteq> 0" unfolding lenc using \<open>?ws \<noteq> []\<close> by simp
    then have cne: "concat ?cmap \<noteq> []" unfolding length_0_conv .
    have "np_mean (concat ?cmap) = 0" using cz by (rule np_mean_zeros)
    moreover have "np_median (concat ?cmap) = 0" using cz cne by (rule np_median_zeros)
    moreover have "?wmc = 0" using weighted_sum_zeros[OF cz] by simp
    ultimately show ?thesis unfolding g using wm0 cz by simp
  qed
  from res p1 p2 p3 show ?thesis by blast
qed

theorem contrast_guards_zero_mean_witness:
  "rectangular (img_rows black_pixel) \<and>
   shape_of (img_rows black_pixel) = shape_of one_weight \<and>
   sum_list (concat one_weight) > 0 \<and>
   (\<exists>rep cmap. analyze_contrast black_pixel 7 None (Some one_weight) = Inr (rep, cmap) \<and>
      global_contrast rep = Some 0 \<and> mean_contrast rep = Some 0 \<and>
      median_contrast rep = Some 0 \<and> weighted_mean_contrast rep = Some 0)"
proof -
  have rect: "rectangular (img_rows black_pixel)"
    by (simp add: rectangular_def black_pixel_def)
  have shape: "shape_of (img_rows black_pixel) = shape_of one_weight"
    by (simp add: shape_of_def black_pixel_def one_weight_def)
  have tot: "sum_list (concat one_weight) > 0" by (simp add: one_weight_def)
  have zero: "\<forall>p\<in>set (concat (img_rows black_pixel)). p = 0" by (simp add: black_pixel_def)
  have win: "(0::nat) < 7" by simp
  from contrast_guards_zero_mean[OF rect shape tot win, of None] zero rect shape tot
  show ?thesis by blast
qed

end
